theory Spec2Isabelle
  imports Complex_Main
begin

section \<open>Python values, exceptions and builtins\<close>

text \<open>
  The request body is parsed JSON, so a field of the body is one of Python's JSON values.
  Python floats are modelled as real numbers: rounding, NaN and the infinities are outside
  the model. The one place where the range of a double changes the control flow, the
  OverflowError of \<open>float(n)\<close> on an integer beyond the largest double, is kept.
\<close>

datatype pyval =
    PNone
  | PBool bool
  | PInt int
  | PFloat real
  | PStr string
  | PList "pyval list"
  | PDict "(string \<times> pyval) list"

datatype exn = TypeError | ValueError | OverflowError | KeyError | IndexError | AttributeError

type_synonym pydict = "string \<rightharpoonup> pyval"

text \<open>
  Three builtins of Python are used on data whose text form the repository does not
  define: \<open>float(s)\<close> on a string (\<open>None\<close> stands for its ValueError), \<open>repr(v)\<close>
  and \<open>str(x)\<close> of a float. The fourth library function is \<open>np.argsort\<close>, called
  with its default kind, which is not a stable sort: numpy fixes the result up to the
  order of the indices of equal values only. All four are parameters of every function
  that calls them.
\<close>

record builtins =
  float_str :: "string \<Rightarrow> real option"
  repr_val :: "pyval \<Rightarrow> string"
  str_float :: "real \<Rightarrow> string"
  np_argsort :: "real list \<Rightarrow> nat list"

definition FLOAT_LIMIT :: int where
  "FLOAT_LIMIT = 2 ^ 1024 - 2 ^ 970"

text \<open>\<open>float(v)\<close>: an integer that rounds to \<open>2 ^ 1024\<close> or beyond raises OverflowError.\<close>

fun float_py :: "builtins \<Rightarrow> pyval \<Rightarrow> exn + real" where
  "float_py py PNone = Inl TypeError"
| "float_py py (PBool b) = Inr (if b then 1 else 0)"
| "float_py py (PInt i) = (if \<bar>i\<bar> < FLOAT_LIMIT then Inr (of_int i) else Inl OverflowError)"
| "float_py py (PFloat x) = Inr x"
| "float_py py (PStr s) = (case float_str py s of None \<Rightarrow> Inl ValueError | Some x \<Rightarrow> Inr x)"
| "float_py py (PList vs) = Inl TypeError"
| "float_py py (PDict kvs) = Inl TypeError"

text \<open>\<open>data.get(field)\<close> and \<open>data[field]\<close> on a dict.\<close>

definition dict_get :: "pydict \<Rightarrow> string \<Rightarrow> pyval" where
  "dict_get data field = (case data field of None \<Rightarrow> PNone | Some v \<Rightarrow> v)"

definition getitem :: "pydict \<Rightarrow> string \<Rightarrow> exn + pyval" where
  "getitem data field = (case data field of None \<Rightarrow> Inl KeyError | Some v \<Rightarrow> Inr v)"

text \<open>\<open>str(n)\<close> of an integer, in decimal.\<close>

definition digit_char :: "nat \<Rightarrow> char" where
  "digit_char d = ''0123456789'' ! d"

fun str_nat :: "nat \<Rightarrow> string" where
  "str_nat n = (if n < 10 then [digit_char n] else str_nat (n div 10) @ [digit_char (n mod 10)])"

definition str_int :: "int \<Rightarrow> string" where
  "str_int i = (if i < 0 then ''-'' @ str_nat (nat (- i)) else str_nat (nat i))"

definition quote :: string where
  "quote = [CHR 0x27]"

section \<open>utils/validators.py\<close>

definition REQUIRED_FIELDS :: "string list" where
  "REQUIRED_FIELDS = [''N'', ''P'', ''K'', ''ph'', ''moisture'', ''temperature'', ''humidity'']"

text \<open>field, min, max, human-readable label; in the order the dict literal lists them.\<close>

definition REALISTIC_RANGES :: "(string \<times> int \<times> int \<times> string) list" where
  "REALISTIC_RANGES =
     [(''N'', 0, 200, ''Nitrogen (N)''),
      (''P'', 0, 200, ''Phosphorus (P)''),
      (''K'', 0, 300, ''Potassium (K)''),
      (''temperature'', -10, 60, ''Temperature''),
      (''humidity'', 0, 100, ''Humidity''),
      (''ph'', 0, 14, ''pH''),
      (''rainfall'', 0, 500, ''Rainfall''),
      (''moisture'', 0, 100, ''Soil Moisture'')]"

definition CONFIDENCE_PENALTY_PER_WARNING :: real where
  "CONFIDENCE_PENALTY_PER_WARNING = 0.10"

definition missing_error :: "string \<Rightarrow> string" where
  "missing_error field = ''Missing required field: '' @ quote @ field @ quote @ ''.''"

definition not_number_error :: "builtins \<Rightarrow> string \<Rightarrow> pyval \<Rightarrow> string" where
  "not_number_error py field v =
     ''Field '' @ quote @ field @ quote @ '' must be a number, got: '' @ repr_val py v @ ''.''"

text \<open>
  The loop of \<open>validate_input\<close> over the required fields. Only TypeError and ValueError
  are caught around \<open>float(data[field])\<close>; any other exception leaves the function.
\<close>

fun validate_fields :: "builtins \<Rightarrow> pydict \<Rightarrow> string list \<Rightarrow> string list \<Rightarrow> exn + string list" where
  "validate_fields py data [] errors = Inr errors"
| "validate_fields py data (field # rest) errors =
     (case data field of
        None \<Rightarrow> validate_fields py data rest (errors @ [missing_error field])
      | Some v \<Rightarrow>
          if v = PNone then validate_fields py data rest (errors @ [missing_error field])
          else (case float_py py v of
                  Inr x \<Rightarrow> validate_fields py data rest errors
                | Inl e \<Rightarrow>
                    if e = TypeError \<or> e = ValueError
                    then validate_fields py data rest (errors @ [not_number_error py field v])
                    else Inl e))"

definition validate_input :: "builtins \<Rightarrow> pydict option \<Rightarrow> exn + string list" where
  "validate_input py data =
     (case data of
        None \<Rightarrow> Inr [''Request body is empty or not valid JSON.'']
      | Some d \<Rightarrow> validate_fields py d REQUIRED_FIELDS [])"

definition below_warning :: "builtins \<Rightarrow> string \<Rightarrow> real \<Rightarrow> int \<Rightarrow> string" where
  "below_warning py label v low =
     ''Input '' @ label @ '' ('' @ str_float py v @ '') is below the expected minimum (''
       @ str_int low @ '').''"

definition above_warning :: "builtins \<Rightarrow> string \<Rightarrow> real \<Rightarrow> int \<Rightarrow> string" where
  "above_warning py label v high =
     ''Input '' @ label @ '' ('' @ str_float py v @ '') is above the expected maximum (''
       @ str_int high @ '').''"

text \<open>
  The loop of \<open>check_realistic_ranges\<close> over the range table, with the two accumulators
  \<open>warnings\<close> and \<open>total_penalty\<close>. \<open>float(value)\<close> is not guarded here.
\<close>

fun check_fields ::
  "builtins \<Rightarrow> pydict \<Rightarrow> (string \<times> int \<times> int \<times> string) list \<Rightarrow> string list \<Rightarrow> real
     \<Rightarrow> exn + (string list \<times> real)" where
  "check_fields py data [] warnings total_penalty = Inr (warnings, total_penalty)"
| "check_fields py data ((field, low, high, label) # rest) warnings total_penalty =
     (if dict_get data field = PNone then check_fields py data rest warnings total_penalty
      else (case float_py py (dict_get data field) of
              Inl e \<Rightarrow> Inl e
            | Inr v \<Rightarrow>
                if v < of_int low
                then check_fields py data rest (warnings @ [below_warning py label v low])
                       (total_penalty + CONFIDENCE_PENALTY_PER_WARNING)
                else if v > of_int high
                then check_fields py data rest (warnings @ [above_warning py label v high])
                       (total_penalty + CONFIDENCE_PENALTY_PER_WARNING)
                else check_fields py data rest warnings total_penalty))"

definition check_realistic_ranges :: "builtins \<Rightarrow> pydict \<Rightarrow> exn + (string list \<times> real)" where
  "check_realistic_ranges py data =
     (case check_fields py data REALISTIC_RANGES [] 0 of
        Inl e \<Rightarrow> Inl e
      | Inr (warnings, total_penalty) \<Rightarrow> Inr (warnings, min total_penalty 0.50))"

section \<open>utils/rainfall.py\<close>

definition HISTORICAL_RAINFALL_AVERAGES :: "(string \<times> real) list" where
  "HISTORICAL_RAINFALL_AVERAGES =
     [(''default'', 120.0),
      (''january'', 15.0),
      (''february'', 20.0),
      (''march'', 30.0),
      (''april'', 45.0),
      (''may'', 65.0),
      (''june'', 165.0),
      (''july'', 280.0),
      (''august'', 260.0),
      (''september'', 195.0),
      (''october'', 110.0),
      (''november'', 40.0),
      (''december'', 15.0)]"

text \<open>Rounding to the nearest integer, halves to the even neighbour (Python's \<open>round\<close> and \<open>.0f\<close>).\<close>

definition round_half_even :: "real \<Rightarrow> int" where
  "round_half_even x =
     (let f = \<lfloor>x\<rfloor> in
      if x - of_int f < 1 / 2 then f
      else if x - of_int f > 1 / 2 then f + 1
      else if even f then f else f + 1)"

text \<open>\<open>round(x, 1)\<close>.\<close>

definition round1 :: "real \<Rightarrow> real" where
  "round1 x = of_int (round_half_even (x * 10)) / 10"

text \<open>
  The placeholder draws \<open>random.uniform(50.0, 200.0)\<close>; the draw is the argument, a number
  or the exception it raised. Any exception of the body makes the function return None.
\<close>

definition fetch_rainfall_from_weather_api :: "exn + real \<Rightarrow> real option" where
  "fetch_rainfall_from_weather_api uniform =
     (case uniform of Inr u \<Rightarrow> Some (round1 u) | Inl e \<Rightarrow> None)"

definition get_default_rainfall :: "exn + real \<Rightarrow> exn + real" where
  "get_default_rainfall uniform =
     (case fetch_rainfall_from_weather_api uniform of
        Some api_rainfall \<Rightarrow> Inr api_rainfall
      | None \<Rightarrow>
          (case map_of HISTORICAL_RAINFALL_AVERAGES ''default'' of
             None \<Rightarrow> Inl KeyError
           | Some v \<Rightarrow> Inr v))"

section \<open>app.py\<close>

text \<open>
  The classifier and the scaler are loaded artifacts: \<open>predict_proba\<close> gives the row of
  class probabilities for one feature vector, \<open>classes\<close> the labels in the classifier's
  own order, \<open>transform\<close> the scaled vector. Either global is None when loading failed.
\<close>

record model =
  predict_proba :: "real list \<Rightarrow> real list"
  classes :: "string list"

record scaler =
  transform :: "real list \<Rightarrow> real list"

record env =
  crop_model :: "model option"
  feature_scaler :: "scaler option"
  uniform_draw :: "exn + real"

record recommendation =
  crop :: string
  confidence :: string

record metadata =
  rainfall_source :: string
  rainfall_value_used :: real

datatype payload =
    ModelNotLoaded
  | ValidationFailed "string list"
  | Success "recommendation list" "string list option" metadata
  | UnexpectedError exn

type_synonym response = "payload \<times> nat"

definition FEATURE_ORDER :: "string list" where
  "FEATURE_ORDER = [''N'', ''P'', ''K'', ''temperature'', ''humidity'', ''ph'', ''rainfall'']"

text \<open>Step 2: the rainfall fallback; the dict is updated in place in the source.\<close>

definition fill_rainfall :: "env \<Rightarrow> pydict \<Rightarrow> exn + (pydict \<times> string)" where
  "fill_rainfall env data =
     (if dict_get data ''rainfall'' = PNone
      then (case get_default_rainfall (uniform_draw env) of
              Inl e \<Rightarrow> Inl e
            | Inr r \<Rightarrow> Inr (data(''rainfall'' \<mapsto> PFloat r), ''estimated (fallback)''))
      else Inr (data, ''sensor''))"

text \<open>\<open>float(data[field])\<close>, and the list of such conversions evaluated left to right.\<close>

definition float_item :: "builtins \<Rightarrow> pydict \<Rightarrow> string \<Rightarrow> exn + real" where
  "float_item py data field =
     (case getitem data field of Inl e \<Rightarrow> Inl e | Inr v \<Rightarrow> float_py py v)"

fun float_items :: "builtins \<Rightarrow> pydict \<Rightarrow> string list \<Rightarrow> exn + real list" where
  "float_items py data [] = Inr []"
| "float_items py data (field # rest) =
     (case float_item py data field of
        Inl e \<Rightarrow> Inl e
      | Inr x \<Rightarrow> (case float_items py data rest of Inl e \<Rightarrow> Inl e | Inr xs \<Rightarrow> Inr (x # xs)))"

text \<open>Step 4: the feature vector, the seven conversions of the array literal.\<close>

definition feature_values :: "builtins \<Rightarrow> pydict \<Rightarrow> exn + real list" where
  "feature_values py data =
     float_items py data [''N'', ''P'', ''K'', ''temperature'', ''humidity'', ''ph'', ''rainfall'']"

text \<open>\<open>np.argsort(probabilities)[::-1][:3]\<close>: the result of the sort, reversed, its first three.\<close>

definition top_indices :: "builtins \<Rightarrow> real list \<Rightarrow> nat list" where
  "top_indices py probabilities = take 3 (rev (np_argsort py probabilities))"

definition index_py :: "'a list \<Rightarrow> nat \<Rightarrow> exn + 'a" where
  "index_py xs i = (if i < length xs then Inr (xs ! i) else Inl IndexError)"

text \<open>The format \<open>.0f\<close> followed by a percent sign.\<close>

definition format_0f :: "real \<Rightarrow> string" where
  "format_0f x = (if x < 0 then ''-'' else []) @ str_nat (nat (round_half_even \<bar>x\<bar>))"

definition adjust_confidence :: "real \<Rightarrow> real \<Rightarrow> real" where
  "adjust_confidence raw_confidence confidence_penalty =
     max (raw_confidence - confidence_penalty) 0.01"

definition confidence_pct :: "real \<Rightarrow> string" where
  "confidence_pct adjusted_confidence = format_0f (adjusted_confidence * 100) @ ''%''"

text \<open>Step 6: the loop over the selected indices, appending one recommendation each.\<close>

fun build_recommendations ::
  "real list \<Rightarrow> string list \<Rightarrow> real \<Rightarrow> nat list \<Rightarrow> recommendation list
     \<Rightarrow> exn + recommendation list" where
  "build_recommendations probabilities class_labels penalty [] recommendations =
     Inr recommendations"
| "build_recommendations probabilities class_labels penalty (idx # rest) recommendations =
     (case index_py probabilities idx of
        Inl e \<Rightarrow> Inl e
      | Inr raw_confidence \<Rightarrow>
          (case index_py class_labels idx of
             Inl e \<Rightarrow> Inl e
           | Inr label \<Rightarrow>
               build_recommendations probabilities class_labels penalty rest
                 (recommendations @
                    [\<lparr>crop = label,
                      confidence = confidence_pct (adjust_confidence raw_confidence penalty)\<rparr>])))"

definition top3_recommendations ::
  "builtins \<Rightarrow> real list \<Rightarrow> string list \<Rightarrow> real \<Rightarrow> exn + recommendation list" where
  "top3_recommendations py probabilities class_labels penalty =
     build_recommendations probabilities class_labels penalty (top_indices py probabilities) []"

text \<open>\<open>warnings if warnings else None\<close>.\<close>

definition response_warnings :: "string list \<Rightarrow> string list option" where
  "response_warnings warnings = (if warnings \<noteq> [] then Some warnings else None)"

text \<open>Steps 2 to 6 and the response, on a body that passed validation.\<close>

definition recommend_steps :: "builtins \<Rightarrow> env \<Rightarrow> model \<Rightarrow> scaler \<Rightarrow> pydict \<Rightarrow> exn + response" where
  "recommend_steps py env m sc data0 =
     (case fill_rainfall env data0 of
        Inl e \<Rightarrow> Inl e
      | Inr (data, source) \<Rightarrow>
     (case check_realistic_ranges py data of
        Inl e \<Rightarrow> Inl e
      | Inr (warnings, confidence_penalty) \<Rightarrow>
     (case feature_values py data of
        Inl e \<Rightarrow> Inl e
      | Inr fv \<Rightarrow>
     (case top3_recommendations py (predict_proba m (transform sc fv)) (classes m)
             confidence_penalty of
        Inl e \<Rightarrow> Inl e
      | Inr recommendations \<Rightarrow>
     (case float_item py data ''rainfall'' of
        Inl e \<Rightarrow> Inl e
      | Inr used \<Rightarrow>
          Inr (Success recommendations (response_warnings warnings)
                 \<lparr>rainfall_source = source, rainfall_value_used = used\<rparr>, 200))))))"

text \<open>
  The body of the \<open>try\<close>: the guard on the loaded artifacts, validation, then the steps.
  A body of None never reaches \<open>data.get\<close>, since validation reports it; the branch is
  the AttributeError Python would raise there.
\<close>

definition recommend_try :: "builtins \<Rightarrow> env \<Rightarrow> pydict option \<Rightarrow> exn + response" where
  "recommend_try py env data =
     (case crop_model env of
        None \<Rightarrow> Inr (ModelNotLoaded, 503)
      | Some m \<Rightarrow>
     (case feature_scaler env of
        None \<Rightarrow> Inr (ModelNotLoaded, 503)
      | Some sc \<Rightarrow>
     (case validate_input py data of
        Inl e \<Rightarrow> Inl e
      | Inr errors \<Rightarrow>
          if errors \<noteq> [] then Inr (ValidationFailed errors, 400)
          else (case data of
                  None \<Rightarrow> Inl AttributeError
                | Some d \<Rightarrow> recommend_steps py env m sc d))))"

text \<open>\<open>except Exception\<close>: every exception of the body becomes the 500 response.\<close>

definition recommend_crop :: "builtins \<Rightarrow> env \<Rightarrow> pydict option \<Rightarrow> response" where
  "recommend_crop py env data =
     (case recommend_try py env data of
        Inr r \<Rightarrow> r
      | Inl e \<Rightarrow> (UnexpectedError e, 500))"

section \<open>Specification-side notions\<close>

text \<open>A table entry is violated when its field is present and strictly outside the range.\<close>

definition out_of_range :: "builtins \<Rightarrow> pydict \<Rightarrow> string \<times> int \<times> int \<times> string \<Rightarrow> bool" where
  "out_of_range py data entry =
     (case entry of (field, low, high, label) \<Rightarrow>
        dict_get data field \<noteq> PNone \<and>
        (case float_py py (dict_get data field) of
           Inr v \<Rightarrow> v < of_int low \<or> v > of_int high
         | Inl e \<Rightarrow> False))"

definition violation_count :: "builtins \<Rightarrow> pydict \<Rightarrow> nat" where
  "violation_count py data = length (filter (out_of_range py data) REALISTIC_RANGES)"

text \<open>The text of the warning for a violated entry: its label, its value, the bound crossed.\<close>

definition warning_text :: "builtins \<Rightarrow> pydict \<Rightarrow> string \<times> int \<times> int \<times> string \<Rightarrow> string" where
  "warning_text py data entry =
     (case entry of (field, low, high, label) \<Rightarrow>
        (case float_py py (dict_get data field) of
           Inr v \<Rightarrow> if v < of_int low then below_warning py label v low
                    else above_warning py label v high
         | Inl e \<Rightarrow> []))"

text \<open>A value converts when \<open>float\<close> returns on it.\<close>

definition converts :: "builtins \<Rightarrow> pyval \<Rightarrow> bool" where
  "converts py v = (case float_py py v of Inr x \<Rightarrow> True | Inl e \<Rightarrow> False)"

text \<open>
  The documented precondition of the range check, a validated numeric dictionary: every
  ranged field that is present converts.
\<close>

definition numeric_entry :: "builtins \<Rightarrow> pydict \<Rightarrow> string \<times> int \<times> int \<times> string \<Rightarrow> bool" where
  "numeric_entry py data entry =
     (dict_get data (fst entry) = PNone \<or> converts py (dict_get data (fst entry)))"

definition numeric_reading :: "builtins \<Rightarrow> pydict \<Rightarrow> bool" where
  "numeric_reading py data = list_all (numeric_entry py data) REALISTIC_RANGES"

text \<open>The error a required field contributes, from the words of the specification.\<close>

definition field_error :: "builtins \<Rightarrow> pydict \<Rightarrow> string \<Rightarrow> string list" where
  "field_error py data field =
     (case data field of
        None \<Rightarrow> [missing_error field]
      | Some v \<Rightarrow> if v = PNone then [missing_error field]
                  else if converts py v then [] else [not_number_error py field v])"

text \<open>A required field is valid when it is present, not null and converts to a number.\<close>

definition valid_field :: "builtins \<Rightarrow> pydict \<Rightarrow> string \<Rightarrow> bool" where
  "valid_field py data field =
     (case data field of None \<Rightarrow> False | Some v \<Rightarrow> v \<noteq> PNone \<and> converts py v)"

text \<open>Equal probabilities keep the order of the classes: the smaller index comes first.\<close>

definition ties_keep_class_order :: "real list \<Rightarrow> nat list \<Rightarrow> bool" where
  "ties_keep_class_order probabilities idxs =
     sorted_wrt (\<lambda>i j. probabilities ! i = probabilities ! j \<longrightarrow> i < j) idxs"

text \<open>
  What numpy documents of \<open>np.argsort\<close>: the result lists every index of the array
  once, in ascending order of the values. Nothing is said of equal values.
\<close>

definition is_argsort :: "real list \<Rightarrow> nat list \<Rightarrow> bool" where
  "is_argsort ps idxs =
     (length idxs = length ps \<and> distinct idxs \<and> list_all (\<lambda>i. i < length ps) idxs \<and>
      sorted (map (\<lambda>i. ps ! i) idxs))"

definition argsort_contract :: "builtins \<Rightarrow> bool" where
  "argsort_contract py = (\<forall>ps. is_argsort ps (np_argsort py ps))"

text \<open>The contract of the classifier: one probability per class label.\<close>

definition engine_contract :: "model \<Rightarrow> bool" where
  "engine_contract m = (\<forall>x. length (predict_proba m x) = length (classes m))"

text \<open>The number a field converts to (0 where the conversion raises).\<close>

definition field_value :: "builtins \<Rightarrow> pydict \<Rightarrow> string \<Rightarrow> real" where
  "field_value py data field =
     (case float_py py (dict_get data field) of Inr x \<Rightarrow> x | Inl e \<Rightarrow> 0)"

section \<open>Example inputs\<close>

text \<open>
  Library functions for evaluating examples. The sort is one that numpy's contract admits,
  the stable one. \<open>float\<close> reads a string of decimal digits and rejects the other
  strings of the examples; \<open>str\<close> prints a number in decimal, with at least one and
  at most sixteen digits after the point; \<open>repr\<close> quotes a string.
\<close>

definition stable_argsort :: "real list \<Rightarrow> nat list" where
  "stable_argsort ps = sort_key (\<lambda>i. ps ! i) [0..<length ps]"

definition digit_value :: "char \<Rightarrow> nat option" where
  "digit_value c =
     map_of [(CHR ''0'', 0), (CHR ''1'', 1), (CHR ''2'', 2), (CHR ''3'', 3), (CHR ''4'', 4),
             (CHR ''5'', 5), (CHR ''6'', 6), (CHR ''7'', 7), (CHR ''8'', 8), (CHR ''9'', 9)] c"

fun read_digits :: "nat \<Rightarrow> string \<Rightarrow> nat option" where
  "read_digits acc [] = Some acc"
| "read_digits acc (c # cs) =
     (case digit_value c of None \<Rightarrow> None | Some d \<Rightarrow> read_digits (10 * acc + d) cs)"

definition example_float_str :: "string \<Rightarrow> real option" where
  "example_float_str s = (if s = [] then None else map_option real (read_digits 0 s))"

fun fraction_digits :: "nat \<Rightarrow> real \<Rightarrow> string" where
  "fraction_digits 0 x = []"
| "fraction_digits (Suc n) x =
     digit_char (nat \<lfloor>x * 10\<rfloor>) #
       (if x * 10 = of_int \<lfloor>x * 10\<rfloor> then [] else fraction_digits n (x * 10 - of_int \<lfloor>x * 10\<rfloor>))"

definition example_str_float :: "real \<Rightarrow> string" where
  "example_str_float x =
     (if x < 0 then ''-'' else []) @ str_nat (nat \<lfloor>\<bar>x\<bar>\<rfloor>) @ ''.'' @
       fraction_digits 16 (\<bar>x\<bar> - of_int \<lfloor>\<bar>x\<bar>\<rfloor>)"

definition example_repr :: "pyval \<Rightarrow> string" where
  "example_repr v =
     (case v of
        PNone \<Rightarrow> ''None''
      | PBool b \<Rightarrow> (if b then ''True'' else ''False'')
      | PInt i \<Rightarrow> str_int i
      | PFloat x \<Rightarrow> example_str_float x
      | PStr s \<Rightarrow> quote @ s @ quote
      | PList vs \<Rightarrow> ''[...]''
      | PDict kvs \<Rightarrow> ''{...}'')"

definition example_builtins :: builtins where
  "example_builtins =
     \<lparr>float_str = example_float_str, repr_val = example_repr, str_float = example_str_float,
      np_argsort = stable_argsort\<rparr>"

text \<open>The reading of the specification's scenario, without rainfall.\<close>

definition example_reading :: pydict where
  "example_reading =
     map_of [(''N'', PInt 90), (''P'', PInt 42), (''K'', PInt 43), (''ph'', PFloat 6.5),
             (''moisture'', PInt 70), (''temperature'', PInt 25), (''humidity'', PInt 80)]"

definition example_model :: model where
  "example_model =
     \<lparr>predict_proba = (\<lambda>x. [0.2, 0.5, 0.3]), classes = [''Maize'', ''Rice'', ''Wheat'']\<rparr>"

definition example_scaler :: scaler where
  "example_scaler = \<lparr>transform = (\<lambda>x. x)\<rparr>"

definition example_env :: env where
  "example_env =
     \<lparr>crop_model = Some example_model, feature_scaler = Some example_scaler,
      uniform_draw = Inr 100\<rparr>"

section \<open>The range check\<close>

lemma check_fields_spec:
  "list_all (numeric_entry py data) tbl \<Longrightarrow>
   check_fields py data tbl ws tp =
     Inr (ws @ map (warning_text py data) (filter (out_of_range py data) tbl),
          tp + CONFIDENCE_PENALTY_PER_WARNING * real (length (filter (out_of_range py data) tbl)))"
proof (induction tbl arbitrary: ws tp)
  case Nil
  then show ?case by simp
next
  case (Cons entry tbl)
  obtain field low high label where e: "entry = (field, low, high, label)"
    by (cases entry) auto
  from Cons.prems have rest: "list_all (numeric_entry py data) tbl"
    and here: "numeric_entry py data entry" by simp_all
  show ?case
  proof (cases "dict_get data field = PNone")
    case True
    then show ?thesis
      using Cons.IH [OF rest] by (simp add: e out_of_range_def)
  next
    case False
    with here e obtain v where v: "float_py py (dict_get data field) = Inr v"
      by (auto simp: numeric_entry_def converts_def split: sum.splits)
    show ?thesis
      using Cons.IH [OF rest] False v
      by (simp add: e out_of_range_def warning_text_def algebra_simps)
  qed
qed

lemma check_realistic_ranges_spec:
  assumes "numeric_reading py data"
  shows "check_realistic_ranges py data =
           Inr (map (warning_text py data) (filter (out_of_range py data) REALISTIC_RANGES),
                min (0.10 * real (violation_count py data)) 0.50)"
  using check_fields_spec [of py data REALISTIC_RANGES "[]" 0] assms
  by (simp add: check_realistic_ranges_def numeric_reading_def violation_count_def
      CONFIDENCE_PENALTY_PER_WARNING_def)

lemma check_fields_not_numeric:
  "\<not> list_all (numeric_entry py data) tbl \<Longrightarrow> \<exists>e. check_fields py data tbl ws tp = Inl e"
proof (induction tbl arbitrary: ws tp)
  case Nil
  then show ?case by simp
next
  case (Cons entry tbl)
  obtain field low high label where e: "entry = (field, low, high, label)"
    by (cases entry) auto
  show ?case
  proof (cases "numeric_entry py data entry")
    case True
    with Cons.prems have rest: "\<not> list_all (numeric_entry py data) tbl" by simp
    from True e show ?thesis
      using Cons.IH [OF rest]
      by (auto simp: numeric_entry_def converts_def split: sum.splits)
  next
    case False
    with e show ?thesis
      by (auto simp: numeric_entry_def converts_def split: sum.splits)
  qed
qed

lemma check_realistic_ranges_raises:
  "\<not> numeric_reading py data \<Longrightarrow> \<exists>e. check_realistic_ranges py data = Inl e"
  using check_fields_not_numeric [of py data REALISTIC_RANGES "[]" 0]
  by (auto simp: check_realistic_ranges_def numeric_reading_def)

lemma map_filter_concat:
  "map g (filter P xs) = concat (map (\<lambda>x. if P x then [g x] else []) xs)"
  by (induction xs) simp_all

lemma violated_entry_text:
  "(if out_of_range py data (field, low, high, label)
    then [warning_text py data (field, low, high, label)] else []) =
   (if dict_get data field = PNone then []
    else (case float_py py (dict_get data field) of
            Inl e \<Rightarrow> []
          | Inr v \<Rightarrow>
              if v < of_int low then [below_warning py label v low]
              else if of_int high < v then [above_warning py label v high]
              else []))"
  by (auto simp: out_of_range_def warning_text_def split: sum.splits)

lemma violated_entry_words:
  "(if out_of_range py data (field, low, high, label)
    then [warning_text py data (field, low, high, label)] else []) =
   (if dict_get data field = PNone then []
    else (case float_py py (dict_get data field) of
            Inl e \<Rightarrow> []
          | Inr v \<Rightarrow>
              if v < of_int low
              then [''Input '' @ label @ '' ('' @ str_float py v @
                    '') is below the expected minimum ('' @ str_int low @ '').'']
              else if of_int high < v
              then [''Input '' @ label @ '' ('' @ str_float py v @
                    '') is above the expected maximum ('' @ str_int high @ '').'']
              else []))"
  unfolding violated_entry_text below_warning_def above_warning_def by (rule refl)

section \<open>Validation\<close>

lemma float_py_raises:
  "float_py py v = Inl e \<Longrightarrow> e = TypeError \<or> e = ValueError \<or> e = OverflowError"
  by (cases v) (auto split: if_splits option.splits)

lemma validate_fields_spec:
  "\<forall>f \<in> set fs. float_py py (dict_get data f) \<noteq> Inl OverflowError \<Longrightarrow>
   validate_fields py data fs errors =
     Inr (errors @ concat (map (field_error py data) fs))"
proof (induction fs arbitrary: errors)
  case Nil
  then show ?case by simp
next
  case (Cons f fs)
  from Cons.prems have rest: "\<forall>f \<in> set fs. float_py py (dict_get data f) \<noteq> Inl OverflowError"
    and here: "float_py py (dict_get data f) \<noteq> Inl OverflowError" by simp_all
  show ?case
  proof (cases "data f")
    case None
    then show ?thesis using Cons.IH [OF rest] by (simp add: field_error_def)
  next
    case (Some v)
    show ?thesis
    proof (cases "float_py py v")
      case (Inl e)
      with here Some have "e = TypeError \<or> e = ValueError"
        using float_py_raises [OF Inl] by (auto simp: dict_get_def)
      with Inl Some show ?thesis
        using Cons.IH [OF rest] by (auto simp: field_error_def converts_def)
    next
      case (Inr x)
      with Some show ?thesis
        using Cons.IH [OF rest] by (auto simp: field_error_def converts_def)
    qed
  qed
qed

lemma field_error_empty: "field_error py data f = [] \<longleftrightarrow> valid_field py data f"
  by (auto simp: field_error_def valid_field_def split: option.splits)

lemma validate_fields_grows:
  "validate_fields py data fs errors = Inr out \<Longrightarrow> length errors \<le> length out"
proof (induction fs arbitrary: errors)
  case Nil
  then show ?case by simp
next
  case (Cons f fs)
  then show ?case
    by (fastforce split: option.splits if_splits sum.splits)
qed

lemma validate_fields_passes:
  "validate_fields py data fs errors = Inr [] \<Longrightarrow>
   errors = [] \<and> (\<forall>f \<in> set fs. valid_field py data f)"
proof (induction fs arbitrary: errors)
  case Nil
  then show ?case by simp
next
  case (Cons f fs)
  from validate_fields_grows [OF Cons.prems] have e: "errors = []" by simp
  have no_grow: "validate_fields py data fs (es @ [x]) \<noteq> Inr []" for es x
    using validate_fields_grows [of py data fs "es @ [x]" "[]"] by auto
  from Cons.prems e no_grow [of "[]"] have "valid_field py data f \<and> validate_fields py data fs [] = Inr []"
    by (auto simp: valid_field_def converts_def split: option.splits if_splits sum.splits)
  with Cons.IH [of "[]"] e show ?case by simp
qed

lemma validate_input_passes:
  "validate_input py (Some data) = Inr [] \<Longrightarrow> \<forall>f \<in> set REQUIRED_FIELDS. valid_field py data f"
  using validate_fields_passes [of py data REQUIRED_FIELDS "[]"]
  by (simp add: validate_input_def)

lemma valid_fields_pass:
  "\<forall>f \<in> set fs. valid_field py data f \<Longrightarrow> validate_fields py data fs errors = Inr errors"
  by (induction fs arbitrary: errors)
     (auto simp: valid_field_def converts_def split: option.splits sum.splits)

section \<open>Ranking\<close>

lemma is_argsort_set:
  assumes "is_argsort ps idxs"
  shows "set idxs = {..<length ps}"
proof -
  have sub: "set idxs \<subseteq> {..<length ps}"
    using assms by (auto simp: is_argsort_def list_all_iff)
  have "card (set idxs) = length ps"
    using assms by (simp add: is_argsort_def distinct_card)
  then have "card (set idxs) = card {..<length ps}" by simp
  with sub show ?thesis by (simp add: card_subset_eq)
qed

lemma is_argsort_ascending:
  "is_argsort ps idxs \<Longrightarrow> sorted_wrt (\<lambda>i j. ps ! i \<le> ps ! j) idxs"
  by (simp add: is_argsort_def sorted_map)

lemma stable_argsort_valid: "is_argsort ps (stable_argsort ps)"
  using sorted_sort_key [of "\<lambda>i. ps ! i" "[0..<length ps]"]
  by (simp add: is_argsort_def stable_argsort_def list_all_iff)

lemma rev_argsort_descending:
  "is_argsort ps idxs \<Longrightarrow> sorted_wrt (\<lambda>i j. ps ! j \<le> ps ! i) (rev idxs)"
  using is_argsort_ascending [of ps idxs] by (simp add: sorted_wrt_rev)

lemma length_top_indices:
  "is_argsort ps (np_argsort py ps) \<Longrightarrow> length (top_indices py ps) = min 3 (length ps)"
  by (simp add: top_indices_def is_argsort_def min.commute)

lemma set_top_indices:
  assumes "is_argsort ps (np_argsort py ps)"
  shows "set (top_indices py ps) \<subseteq> {..<length ps}"
proof -
  have "set (top_indices py ps) \<subseteq> set (rev (np_argsort py ps))"
    unfolding top_indices_def by (rule set_take_subset)
  then show ?thesis using is_argsort_set [OF assms] by simp
qed

lemma distinct_top_indices:
  "is_argsort ps (np_argsort py ps) \<Longrightarrow> distinct (top_indices py ps)"
  by (simp add: top_indices_def is_argsort_def)

lemma top_indices_descending:
  assumes "is_argsort ps (np_argsort py ps)"
  shows "sorted_wrt (\<lambda>i j. ps ! j \<le> ps ! i) (top_indices py ps)"
  unfolding top_indices_def
  using rev_argsort_descending [OF assms] by (rule sorted_wrt_take)

lemma top_indices_dominate:
  assumes "is_argsort ps (np_argsort py ps)"
    and "j < length ps" and "j \<notin> set (top_indices py ps)" and "i \<in> set (top_indices py ps)"
  shows "ps ! j \<le> ps ! i"
proof -
  let ?r = "rev (np_argsort py ps)"
  have "sorted_wrt (\<lambda>i j. ps ! j \<le> ps ! i) (take 3 ?r @ drop 3 ?r)"
    using rev_argsort_descending [OF assms(1)] by simp
  then have cross: "\<forall>a \<in> set (take 3 ?r). \<forall>b \<in> set (drop 3 ?r). ps ! b \<le> ps ! a"
    unfolding sorted_wrt_append by blast
  have "j \<in> set ?r" using assms(2) is_argsort_set [OF assms(1)] by simp
  then have "j \<in> set (take 3 ?r) \<union> set (drop 3 ?r)"
    by (metis append_take_drop_id set_append)
  with assms(3) have "j \<in> set (drop 3 ?r)" by (simp add: top_indices_def)
  with cross assms(4) show ?thesis by (simp add: top_indices_def)
qed

lemma build_recommendations_spec:
  assumes "\<forall>i \<in> set idxs. i < length ps" and "length labels = length ps"
  shows "build_recommendations ps labels pen idxs recs =
           Inr (recs @ map (\<lambda>i. \<lparr>crop = labels ! i,
                                  confidence = confidence_pct (adjust_confidence (ps ! i) pen)\<rparr>) idxs)"
  using assms by (induction idxs arbitrary: recs) (simp_all add: index_py_def)

lemma top3_recommendations_spec:
  assumes "length labels = length ps" and "is_argsort ps (np_argsort py ps)"
  shows "top3_recommendations py ps labels pen =
           Inr (map (\<lambda>i. \<lparr>crop = labels ! i,
                           confidence = confidence_pct (adjust_confidence (ps ! i) pen)\<rparr>)
                  (top_indices py ps))"
proof -
  have "\<forall>i \<in> set (top_indices py ps). i < length ps"
    using set_top_indices [OF assms(2)] by auto
  then show ?thesis
    unfolding top3_recommendations_def
    using build_recommendations_spec [of "top_indices py ps" ps labels pen "[]"] assms(1) by simp
qed

section \<open>Confidence\<close>

lemma floor_le_round_half_even: "\<lfloor>x\<rfloor> \<le> round_half_even x"
  by (simp add: round_half_even_def Let_def)

lemma adjust_confidence_floor: "0.01 \<le> adjust_confidence raw pen"
  by (simp add: adjust_confidence_def)

lemma adjusted_percent_positive: "1 \<le> round_half_even (adjust_confidence raw pen * 100)"
proof -
  have "1 \<le> adjust_confidence raw pen * 100"
    using adjust_confidence_floor [of raw pen] by simp
  then have "1 \<le> \<lfloor>adjust_confidence raw pen * 100\<rfloor>" by (simp add: le_floor_iff)
  then show ?thesis using floor_le_round_half_even [of "adjust_confidence raw pen * 100"] by linarith
qed

lemma confidence_pct_adjusted:
  "confidence_pct (adjust_confidence raw pen) =
     str_nat (nat (round_half_even (adjust_confidence raw pen * 100))) @ ''%''"
proof -
  have "0 \<le> adjust_confidence raw pen * 100"
    using adjust_confidence_floor [of raw pen] by simp
  then show ?thesis by (simp add: confidence_pct_def format_0f_def)
qed

section \<open>The rainfall fallback\<close>

lemma get_default_rainfall_spec:
  "get_default_rainfall u =
     Inr (case fetch_rainfall_from_weather_api u of Some v \<Rightarrow> v | None \<Rightarrow> 120.0)"
  by (simp add: get_default_rainfall_def HISTORICAL_RAINFALL_AVERAGES_def split: option.splits)

lemma fill_rainfall_absent:
  assumes "dict_get data ''rainfall'' = PNone"
  shows "\<exists>r. get_default_rainfall (uniform_draw env) = Inr r \<and>
             fill_rainfall env data = Inr (data(''rainfall'' \<mapsto> PFloat r), ''estimated (fallback)'')"
  using assms by (simp add: fill_rainfall_def get_default_rainfall_spec)

lemma fill_rainfall_present:
  assumes "dict_get data ''rainfall'' \<noteq> PNone"
  shows "fill_rainfall env data = Inr (data, ''sensor'')"
  using assms by (simp add: fill_rainfall_def)

section \<open>The feature vector and the handler\<close>

lemma valid_field_float_item:
  "valid_field py data f \<Longrightarrow> float_item py data f = Inr (field_value py data f)"
  by (auto simp: valid_field_def float_item_def getitem_def field_value_def dict_get_def
      converts_def split: option.splits sum.splits)

lemma valid_field_numeric:
  "valid_field py data f \<Longrightarrow> converts py (dict_get data f)"
  by (auto simp: valid_field_def dict_get_def split: option.splits)

lemma float_items_valid:
  "\<forall>f \<in> set fs. valid_field py data f \<Longrightarrow>
   float_items py data fs = Inr (map (field_value py data) fs)"
  by (induction fs) (simp_all add: valid_field_float_item)

lemma valid_reading_numeric:
  assumes "\<forall>f \<in> set REQUIRED_FIELDS. valid_field py data f"
    and "valid_field py data ''rainfall''"
  shows "numeric_reading py data"
  using assms
  by (simp add: numeric_reading_def numeric_entry_def REALISTIC_RANGES_def REQUIRED_FIELDS_def
      valid_field_numeric)

lemma valid_reading_features:
  assumes "\<forall>f \<in> set REQUIRED_FIELDS. valid_field py data f"
    and "valid_field py data ''rainfall''"
  shows "feature_values py data = Inr (map (field_value py data) FEATURE_ORDER)"
proof -
  have "\<forall>f \<in> set FEATURE_ORDER. valid_field py data f"
    using assms by (simp add: FEATURE_ORDER_def REQUIRED_FIELDS_def)
  then have "float_items py data FEATURE_ORDER = Inr (map (field_value py data) FEATURE_ORDER)"
    by (rule float_items_valid)
  then show ?thesis by (simp add: feature_values_def FEATURE_ORDER_def)
qed

lemma recommend_steps_filled:
  fixes py env m sc data0 data source
  defines "ws \<equiv> map (warning_text py data) (filter (out_of_range py data) REALISTIC_RANGES)"
    and "pen \<equiv> min (0.10 * real (violation_count py data)) 0.50"
    and "ps \<equiv> predict_proba m (transform sc (map (field_value py data) FEATURE_ORDER))"
  assumes fill: "fill_rainfall env data0 = Inr (data, source)"
    and req: "\<forall>f \<in> set REQUIRED_FIELDS. valid_field py data f"
    and rain: "valid_field py data ''rainfall''"
    and contract: "engine_contract m"
    and sorts: "argsort_contract py"
  shows "recommend_steps py env m sc data0 =
           Inr (Success
                  (map (\<lambda>i. \<lparr>crop = classes m ! i,
                               confidence = confidence_pct (adjust_confidence (ps ! i) pen)\<rparr>)
                     (top_indices py ps))
                  (response_warnings ws)
                  \<lparr>rainfall_source = source,
                   rainfall_value_used = field_value py data ''rainfall''\<rparr>, 200)"
proof -
  have ranges: "check_realistic_ranges py data = Inr (ws, pen)"
    unfolding ws_def pen_def
    by (rule check_realistic_ranges_spec) (rule valid_reading_numeric [OF req rain])
  have fv: "feature_values py data = Inr (map (field_value py data) FEATURE_ORDER)"
    by (rule valid_reading_features [OF req rain])
  have len: "length (classes m) = length ps"
    using contract by (simp add: engine_contract_def ps_def)
  have sorted_ps: "is_argsort ps (np_argsort py ps)"
    using sorts by (simp add: argsort_contract_def)
  have top: "top3_recommendations py ps (classes m) pen =
               Inr (map (\<lambda>i. \<lparr>crop = classes m ! i,
                               confidence = confidence_pct (adjust_confidence (ps ! i) pen)\<rparr>)
                      (top_indices py ps))"
    by (rule top3_recommendations_spec [OF len sorted_ps])
  have used: "float_item py data ''rainfall'' = Inr (field_value py data ''rainfall'')"
    by (rule valid_field_float_item [OF rain])
  show ?thesis
    unfolding recommend_steps_def
    by (simp add: fill ranges fv top [unfolded ps_def] used ps_def)
qed

lemma valid_field_update_other:
  "f \<noteq> g \<Longrightarrow> valid_field py (data(g \<mapsto> v)) f = valid_field py data f"
  by (simp add: valid_field_def)

lemma required_not_rainfall: "f \<in> set REQUIRED_FIELDS \<Longrightarrow> f \<noteq> ''rainfall''"
  by (auto simp: REQUIRED_FIELDS_def)

lemma check_fields_raises:
  assumes "list_all (numeric_entry py data) pre"
    and "dict_get data field \<noteq> PNone"
    and "float_py py (dict_get data field) = Inl e"
  shows "check_fields py data (pre @ (field, low, high, label) # post) ws tp = Inl e"
  using assms(1)
proof (induction pre arbitrary: ws tp)
  case Nil
  then show ?case using assms(2,3) by simp
next
  case (Cons entry pre)
  obtain f lo hi lab where en: "entry = (f, lo, hi, lab)"
    by (cases entry) auto
  from Cons.prems have rest: "list_all (numeric_entry py data) pre"
    and here: "numeric_entry py data entry" by simp_all
  show ?case
  proof (cases "dict_get data f = PNone")
    case True
    then show ?thesis using Cons.IH [OF rest] by (simp add: en)
  next
    case False
    with here en obtain v where "float_py py (dict_get data f) = Inr v"
      by (auto simp: numeric_entry_def converts_def split: sum.splits)
    then show ?thesis using Cons.IH [OF rest] False by (simp add: en)
  qed
qed

section \<open>The handler on a validated body\<close>

lemma converts_valid: "converts py (dict_get data f) \<Longrightarrow> valid_field py data f"
  by (auto simp: valid_field_def dict_get_def converts_def split: option.splits)

lemma fill_rainfall_keeps_required:
  assumes "fill_rainfall env data0 = Inr (data, source)"
    and "\<forall>f \<in> set REQUIRED_FIELDS. valid_field py data0 f"
  shows "\<forall>f \<in> set REQUIRED_FIELDS. valid_field py data f"
  using assms
  by (auto simp: fill_rainfall_def valid_field_update_other required_not_rainfall
      split: if_splits sum.splits)

lemma recommend_crop_filled:
  fixes py env m sc data0 data source
  defines "ws \<equiv> map (warning_text py data) (filter (out_of_range py data) REALISTIC_RANGES)"
    and "pen \<equiv> min (0.10 * real (violation_count py data)) 0.50"
    and "ps \<equiv> predict_proba m (transform sc (map (field_value py data) FEATURE_ORDER))"
  assumes loaded: "crop_model env = Some m" "feature_scaler env = Some sc"
    and contract: "engine_contract m"
    and sorts: "argsort_contract py"
    and valid: "validate_input py (Some data0) = Inr []"
    and fill: "fill_rainfall env data0 = Inr (data, source)"
    and rain: "converts py (dict_get data ''rainfall'')"
  shows "feature_values py data = Inr (map (field_value py data) FEATURE_ORDER)"
    and "check_realistic_ranges py data = Inr (ws, pen)"
    and "top3_recommendations py ps (classes m) pen =
           Inr (map (\<lambda>i. \<lparr>crop = classes m ! i,
                           confidence = confidence_pct (adjust_confidence (ps ! i) pen)\<rparr>)
                  (top_indices py ps))"
    and "recommend_crop py env (Some data0) =
           (Success
              (map (\<lambda>i. \<lparr>crop = classes m ! i,
                           confidence = confidence_pct (adjust_confidence (ps ! i) pen)\<rparr>)
                 (top_indices py ps))
              (response_warnings ws)
              \<lparr>rainfall_source = source,
               rainfall_value_used = field_value py data ''rainfall''\<rparr>, 200)"
proof -
  have req: "\<forall>f \<in> set REQUIRED_FIELDS. valid_field py data f"
    using fill_rainfall_keeps_required [OF fill validate_input_passes [OF valid]] .
  have rainv: "valid_field py data ''rainfall''"
    using rain by (rule converts_valid)
  show "feature_values py data = Inr (map (field_value py data) FEATURE_ORDER)"
    by (rule valid_reading_features [OF req rainv])
  show "check_realistic_ranges py data = Inr (ws, pen)"
    unfolding ws_def pen_def
    by (rule check_realistic_ranges_spec) (rule valid_reading_numeric [OF req rainv])
  have len: "length (classes m) = length ps"
    using contract by (simp add: engine_contract_def ps_def)
  have sorted_ps: "is_argsort ps (np_argsort py ps)"
    using sorts by (simp add: argsort_contract_def)
  show "top3_recommendations py ps (classes m) pen =
           Inr (map (\<lambda>i. \<lparr>crop = classes m ! i,
                           confidence = confidence_pct (adjust_confidence (ps ! i) pen)\<rparr>)
                  (top_indices py ps))"
    by (rule top3_recommendations_spec [OF len sorted_ps])
  show "recommend_crop py env (Some data0) =
           (Success
              (map (\<lambda>i. \<lparr>crop = classes m ! i,
                           confidence = confidence_pct (adjust_confidence (ps ! i) pen)\<rparr>)
                 (top_indices py ps))
              (response_warnings ws)
              \<lparr>rainfall_source = source,
               rainfall_value_used = field_value py data ''rainfall''\<rparr>, 200)"
    using recommend_steps_filled [OF fill req rainv contract sorts, of sc]
    by (simp add: recommend_crop_def recommend_try_def loaded valid ws_def pen_def ps_def)
qed

lemma float_items_update_other:
  "g \<notin> set fs \<Longrightarrow> float_items py (data(g \<mapsto> v)) fs = float_items py data fs"
  by (induction fs) (auto simp: float_item_def getitem_def split: sum.splits option.splits)

lemma feature_order_last:
  "length (map (field_value py data) FEATURE_ORDER) = 7"
  "map (field_value py data) FEATURE_ORDER ! 6 = field_value py data ''rainfall''"
  by (simp_all add: FEATURE_ORDER_def)

lemma converts_field_value:
  "converts py v \<Longrightarrow> float_py py v = Inr (case float_py py v of Inr x \<Rightarrow> x | Inl e \<Rightarrow> 0)"
  by (auto simp: converts_def split: sum.splits)

section \<open>Validation of the required fields\<close>

text \<open>
  On a body in which no required field is an integer beyond the range of a double,
  \<open>validate_input\<close> returns the errors of the offending fields, in the order of
  \<open>REQUIRED_FIELDS\<close>, one each: the list is empty exactly when all seven fields are
  present, not null and convertible.
\<close>

lemma validate_input_spec:
  assumes "\<forall>f \<in> set REQUIRED_FIELDS. float_py py (dict_get data f) \<noteq> Inl OverflowError"
  shows "validate_input py (Some data) = Inr (concat (map (field_error py data) REQUIRED_FIELDS))"
    and "validate_input py (Some data) = Inr [] \<longleftrightarrow>
           (\<forall>f \<in> set REQUIRED_FIELDS. valid_field py data f)"
proof -
  show a: "validate_input py (Some data) =
             Inr (concat (map (field_error py data) REQUIRED_FIELDS))"
    using validate_fields_spec [OF assms, of "[]"] by (simp add: validate_input_def)
  show "validate_input py (Some data) = Inr [] \<longleftrightarrow>
          (\<forall>f \<in> set REQUIRED_FIELDS. valid_field py data f)"
    unfolding a by (simp add: field_error_empty)
qed

section \<open>The example request, evaluated\<close>

lemma example_reading_lookups:
  "example_reading ''N'' = Some (PInt 90)"
  "example_reading ''P'' = Some (PInt 42)"
  "example_reading ''K'' = Some (PInt 43)"
  "example_reading ''ph'' = Some (PFloat 6.5)"
  "example_reading ''moisture'' = Some (PInt 70)"
  "example_reading ''temperature'' = Some (PInt 25)"
  "example_reading ''humidity'' = Some (PInt 80)"
  "example_reading ''rainfall'' = None"
  by (simp_all add: example_reading_def)

lemma example_env_loaded:
  "crop_model example_env = Some example_model"
  "feature_scaler example_env = Some example_scaler"
  by (simp_all add: example_env_def)

lemma example_contract: "engine_contract example_model"
  by (simp add: engine_contract_def example_model_def)

lemma example_sort: "np_argsort example_builtins = stable_argsort"
  by (simp add: example_builtins_def)

lemma example_sorts: "argsort_contract example_builtins"
  by (simp add: argsort_contract_def example_sort stable_argsort_valid)

lemma fraction_digits_numeral:
  "fraction_digits (numeral k) x =
     digit_char (nat \<lfloor>x * 10\<rfloor>) #
       (if x * 10 = of_int \<lfloor>x * 10\<rfloor> then []
        else fraction_digits (pred_numeral k) (x * 10 - of_int \<lfloor>x * 10\<rfloor>))"
  by (simp add: numeral_eq_Suc)

lemma example_str_float_values:
  "str_float example_builtins 120 = ''120.0''"
  "str_float example_builtins (- 5) = ''-5.0''"
  "str_float example_builtins 6.5 = ''6.5''"
  by (simp_all add: example_builtins_def example_str_float_def digit_char_def
      fraction_digits_numeral)

lemma example_float_str_values:
  "float_str example_builtins ''heavy'' = None"
  "float_str example_builtins ''42'' = Some 42"
  by (simp_all add: example_builtins_def example_float_str_def digit_value_def)

lemma example_validates: "validate_input example_builtins (Some example_reading) = Inr []"
  by (simp add: validate_input_def REQUIRED_FIELDS_def example_reading_lookups FLOAT_LIMIT_def)

lemma example_filled:
  "fill_rainfall example_env example_reading =
     Inr (example_reading(''rainfall'' \<mapsto> PFloat 100), ''estimated (fallback)'')"
  by (simp add: fill_rainfall_def dict_get_def example_reading_lookups example_env_def
      get_default_rainfall_def fetch_rainfall_from_weather_api_def round1_def
      round_half_even_def)

lemma example_ranges:
  "check_realistic_ranges example_builtins (example_reading(''rainfall'' \<mapsto> PFloat 100)) =
     Inr ([], 0)"
  by (simp add: check_realistic_ranges_def REALISTIC_RANGES_def dict_get_def
      example_reading_lookups FLOAT_LIMIT_def)

lemma example_features:
  "feature_values example_builtins (example_reading(''rainfall'' \<mapsto> PFloat 100)) =
     Inr [90, 42, 43, 25, 80, 6.5, 100]"
  by (simp add: feature_values_def float_item_def getitem_def example_reading_lookups
      FLOAT_LIMIT_def)

lemma example_top3:
  "top3_recommendations example_builtins [0.2, 0.5, 0.3] [''Maize'', ''Rice'', ''Wheat''] 0 =
     Inr [\<lparr>crop = ''Rice'', confidence = ''50%''\<rparr>,
          \<lparr>crop = ''Wheat'', confidence = ''30%''\<rparr>,
          \<lparr>crop = ''Maize'', confidence = ''20%''\<rparr>]"
  by (simp add: top3_recommendations_def top_indices_def example_sort stable_argsort_def upt_rec
      index_py_def confidence_pct_def format_0f_def adjust_confidence_def round_half_even_def
      Let_def digit_char_def)

lemma example_response:
  "recommend_crop example_builtins example_env (Some example_reading) =
     (Success
        [\<lparr>crop = ''Rice'', confidence = ''50%''\<rparr>,
         \<lparr>crop = ''Wheat'', confidence = ''30%''\<rparr>,
         \<lparr>crop = ''Maize'', confidence = ''20%''\<rparr>]
        None
        \<lparr>rainfall_source = ''estimated (fallback)'', rainfall_value_used = 100\<rparr>, 200)"
proof -
  have used: "float_item example_builtins (example_reading(''rainfall'' \<mapsto> PFloat 100)) ''rainfall''
                = Inr 100"
    by (simp add: float_item_def getitem_def)
  have steps: "recommend_steps example_builtins example_env example_model example_scaler
                 example_reading =
     Inr (Success
        [\<lparr>crop = ''Rice'', confidence = ''50%''\<rparr>,
         \<lparr>crop = ''Wheat'', confidence = ''30%''\<rparr>,
         \<lparr>crop = ''Maize'', confidence = ''20%''\<rparr>]
        None
        \<lparr>rainfall_source = ''estimated (fallback)'', rainfall_value_used = 100\<rparr>, 200)"
    unfolding recommend_steps_def
    using example_top3
    by (simp add: example_filled example_ranges example_features used example_model_def
        example_scaler_def response_warnings_def)
  show ?thesis
    by (simp add: recommend_crop_def recommend_try_def example_validates steps example_env_loaded)
qed

section \<open>The claims\<close>

subsection \<open>The confidence penalty\<close>

text \<open>
  C1, as the code has it. On a reading whose present ranged fields all convert to numbers
  (the documented argument of \<open>check_realistic_ranges\<close>, a validated numeric
  dictionary), the function returns, and its penalty is
  \<open>min (0.10 * violationCount) 0.50\<close>, where a violation is a ranged field that is
  present and strictly outside its range. One warning is produced per violation, and a
  field that is absent or null is no violation. On any other reading the function raises
  and returns no penalty.
\<close>

theorem check_realistic_ranges_penalty:
  "(numeric_reading py data \<longrightarrow>
      (\<exists>warnings.
         check_realistic_ranges py data =
           Inr (warnings, min (0.10 * real (violation_count py data)) 0.50) \<and>
         length warnings = violation_count py data)) \<and>
   (\<not> numeric_reading py data \<longrightarrow> (\<exists>e. check_realistic_ranges py data = Inl e)) \<and>
   (\<forall>entry \<in> set REALISTIC_RANGES.
      dict_get data (fst entry) = PNone \<longrightarrow> \<not> out_of_range py data entry)"
proof (intro conjI impI)
  assume "numeric_reading py data"
  from check_realistic_ranges_spec [OF this]
  show "\<exists>warnings.
         check_realistic_ranges py data =
           Inr (warnings, min (0.10 * real (violation_count py data)) 0.50) \<and>
         length warnings = violation_count py data"
    by (simp add: violation_count_def)
next
  assume "\<not> numeric_reading py data"
  then show "\<exists>e. check_realistic_ranges py data = Inl e"
    by (rule check_realistic_ranges_raises)
next
  show "\<forall>entry \<in> set REALISTIC_RANGES.
          dict_get data (fst entry) = PNone \<longrightarrow> \<not> out_of_range py data entry"
    by (auto simp: out_of_range_def)
qed

theorem check_realistic_ranges_penalty_witness:
  "numeric_reading example_builtins (example_reading(''temperature'' \<mapsto> PInt 120)) \<and>
   violation_count example_builtins (example_reading(''temperature'' \<mapsto> PInt 120)) = 1 \<and>
   (\<exists>warnings.
      check_realistic_ranges example_builtins (example_reading(''temperature'' \<mapsto> PInt 120)) =
        Inr (warnings, 0.10)) \<and>
   \<not> numeric_reading example_builtins (example_reading(''ph'' \<mapsto> PStr ''acid'')) \<and>
   (\<exists>e. check_realistic_ranges example_builtins (example_reading(''ph'' \<mapsto> PStr ''acid''))
          = Inl e)"
proof -
  let ?d = "example_reading(''temperature'' \<mapsto> PInt 120)"
  let ?b = "example_reading(''ph'' \<mapsto> PStr ''acid'')"
  have h: "numeric_reading example_builtins ?d"
    by (simp add: numeric_reading_def numeric_entry_def REALISTIC_RANGES_def dict_get_def
        example_reading_lookups converts_def FLOAT_LIMIT_def)
  have c: "violation_count example_builtins ?d = 1"
    by (simp add: violation_count_def out_of_range_def REALISTIC_RANGES_def dict_get_def
        example_reading_lookups FLOAT_LIMIT_def)
  have acid: "float_str example_builtins ''acid'' = None"
    by (simp add: example_builtins_def example_float_str_def digit_value_def)
  have n: "\<not> numeric_reading example_builtins ?b"
    by (simp add: numeric_reading_def numeric_entry_def REALISTIC_RANGES_def dict_get_def
        example_reading_lookups converts_def FLOAT_LIMIT_def acid)
  show ?thesis
    using h c n check_realistic_ranges_penalty [of example_builtins ?d]
      check_realistic_ranges_penalty [of example_builtins ?b]
    by auto
qed

text \<open>
  C1, as the specification states it, for every input mapping, fails: a body that passes
  validation, with temperature 120 and the rainfall "heavy", has one violation, and the
  range check raises on the rainfall instead of returning the penalty 0.10.
\<close>

theorem penalty_not_returned:
  "validate_input example_builtins
     (Some (example_reading(''temperature'' \<mapsto> PInt 120, ''rainfall'' \<mapsto> PStr ''heavy''))) = Inr [] \<and>
   violation_count example_builtins
     (example_reading(''temperature'' \<mapsto> PInt 120, ''rainfall'' \<mapsto> PStr ''heavy'')) = 1 \<and>
   check_realistic_ranges example_builtins
     (example_reading(''temperature'' \<mapsto> PInt 120, ''rainfall'' \<mapsto> PStr ''heavy'')) = Inl ValueError"
proof (intro conjI)
  let ?d = "example_reading(''temperature'' \<mapsto> PInt 120, ''rainfall'' \<mapsto> PStr ''heavy'')"
  show "validate_input example_builtins (Some ?d) = Inr []"
    by (simp add: validate_input_def REQUIRED_FIELDS_def example_reading_lookups FLOAT_LIMIT_def)
  show "violation_count example_builtins ?d = 1"
    by (simp add: violation_count_def out_of_range_def REALISTIC_RANGES_def dict_get_def
        example_reading_lookups FLOAT_LIMIT_def example_float_str_values)
  show "check_realistic_ranges example_builtins ?d = Inl ValueError"
    by (simp add: check_realistic_ranges_def REALISTIC_RANGES_def dict_get_def
        example_reading_lookups FLOAT_LIMIT_def example_float_str_values
        CONFIDENCE_PENALTY_PER_WARNING_def)
qed

subsection \<open>The reported confidence\<close>

text \<open>
  C2. When the classifier gives one probability per class label and \<open>np.argsort\<close>
  returns an ascending order of the indices, every recommendation
  carries the confidence \<open>max (raw - penalty) 0.01\<close> of its class, written as the
  nearest integer followed by a percent sign; the fraction is positive and the integer is
  at least 1, for every probability and every penalty.
\<close>

theorem confidence_is_floored_difference:
  assumes "length class_labels = length probabilities"
    and "is_argsort probabilities (np_argsort py probabilities)"
  shows "\<exists>recommendations.
           top3_recommendations py probabilities class_labels penalty = Inr recommendations \<and>
           map confidence recommendations =
             map (\<lambda>i. str_nat (nat (round_half_even
                          (max (probabilities ! i - penalty) 0.01 * 100))) @ ''%'')
               (top_indices py probabilities) \<and>
           (\<forall>i. 0 < max (probabilities ! i - penalty) 0.01 \<and>
                1 \<le> round_half_even (max (probabilities ! i - penalty) 0.01 * 100))"
proof -
  have pos: "\<forall>i. 0 < max (probabilities ! i - penalty) 0.01 \<and>
                 1 \<le> round_half_even (max (probabilities ! i - penalty) 0.01 * 100)"
    using adjusted_percent_positive [of _ penalty]
    by (simp add: adjust_confidence_def less_max_iff_disj)
  have "map confidence
          (map (\<lambda>i. \<lparr>crop = class_labels ! i,
                      confidence = confidence_pct (adjust_confidence (probabilities ! i) penalty)\<rparr>)
             (top_indices py probabilities)) =
        map (\<lambda>i. str_nat (nat (round_half_even
                     (max (probabilities ! i - penalty) 0.01 * 100))) @ ''%'')
          (top_indices py probabilities)"
    using confidence_pct_adjusted [of _ penalty]
    by (simp add: adjust_confidence_def comp_def)
  with pos show ?thesis
    using top3_recommendations_spec [OF assms, of penalty] by simp
qed

theorem confidence_is_floored_difference_witness:
  "length [''Maize'', ''Rice''] = length [0.05, 0.95 :: real] \<and>
   is_argsort [0.05, 0.95] (np_argsort example_builtins [0.05, 0.95]) \<and>
   top3_recommendations example_builtins [0.05, 0.95] [''Maize'', ''Rice''] 0.10 =
     Inr [\<lparr>crop = ''Rice'', confidence = ''85%''\<rparr>, \<lparr>crop = ''Maize'', confidence = ''1%''\<rparr>]"
proof -
  have h: "length [''Maize'', ''Rice''] = length [0.05, 0.95 :: real]" by simp
  have s: "is_argsort [0.05, 0.95] (np_argsort example_builtins [0.05, 0.95])"
    by (simp add: example_sort stable_argsort_valid)
  have v: "top3_recommendations example_builtins [0.05, 0.95] [''Maize'', ''Rice''] 0.10 =
     Inr [\<lparr>crop = ''Rice'', confidence = ''85%''\<rparr>, \<lparr>crop = ''Maize'', confidence = ''1%''\<rparr>]"
    by (simp add: top3_recommendations_def top_indices_def example_sort stable_argsort_def
        upt_rec index_py_def
        confidence_pct_def format_0f_def adjust_confidence_def round_half_even_def Let_def
        digit_char_def)
  show ?thesis
    using h s v confidence_is_floored_difference [OF h s, of "0.10"] by simp
qed

subsection \<open>The order of the recommendations\<close>

text \<open>
  C3, as the code has it. When the classifier gives one probability per class label and
  \<open>np.argsort\<close> returns an ascending order of the indices, the recommendations are the
  classes at the selected indices, in order of raw probability descending; the selected
  indices are distinct classes, and no class left out has a higher probability than a
  selected one. Nothing is promised of the order among equal probabilities.
\<close>

theorem recommendations_descending:
  assumes "length class_labels = length probabilities"
    and "is_argsort probabilities (np_argsort py probabilities)"
  shows "\<exists>recommendations.
           top3_recommendations py probabilities class_labels penalty = Inr recommendations \<and>
           map crop recommendations =
             map (\<lambda>i. class_labels ! i) (top_indices py probabilities) \<and>
           sorted_wrt (\<lambda>i j. probabilities ! j \<le> probabilities ! i)
             (top_indices py probabilities) \<and>
           distinct (top_indices py probabilities) \<and>
           set (top_indices py probabilities) \<subseteq> {..<length probabilities} \<and>
           (\<forall>j < length probabilities. j \<notin> set (top_indices py probabilities) \<longrightarrow>
              (\<forall>i \<in> set (top_indices py probabilities).
                 probabilities ! j \<le> probabilities ! i))"
proof -
  have "map crop
          (map (\<lambda>i. \<lparr>crop = class_labels ! i,
                      confidence = confidence_pct (adjust_confidence (probabilities ! i) penalty)\<rparr>)
             (top_indices py probabilities)) =
        map (\<lambda>i. class_labels ! i) (top_indices py probabilities)"
    by (simp add: comp_def)
  then show ?thesis
    using top3_recommendations_spec [OF assms, of penalty]
      top_indices_descending [OF assms(2)] distinct_top_indices [OF assms(2)]
      set_top_indices [OF assms(2)] top_indices_dominate [OF assms(2)]
    by simp
qed

theorem recommendations_descending_witness:
  "length [''Maize'', ''Rice'', ''Wheat'', ''Jute''] = length [0.1, 0.4, 0.2, 0.3 :: real] \<and>
   is_argsort [0.1, 0.4, 0.2, 0.3] (np_argsort example_builtins [0.1, 0.4, 0.2, 0.3]) \<and>
   (\<exists>recommendations.
      top3_recommendations example_builtins [0.1, 0.4, 0.2, 0.3]
          [''Maize'', ''Rice'', ''Wheat'', ''Jute''] 0
        = Inr recommendations \<and>
      map crop recommendations = [''Rice'', ''Jute'', ''Wheat''])"
proof -
  have h: "length [''Maize'', ''Rice'', ''Wheat'', ''Jute''] = length [0.1, 0.4, 0.2, 0.3 :: real]"
    by simp
  have s: "is_argsort [0.1, 0.4, 0.2, 0.3] (np_argsort example_builtins [0.1, 0.4, 0.2, 0.3])"
    by (simp add: example_sort stable_argsort_valid)
  have t: "map (\<lambda>i. [''Maize'', ''Rice'', ''Wheat'', ''Jute''] ! i)
             (top_indices example_builtins [0.1, 0.4, 0.2, 0.3]) = [''Rice'', ''Jute'', ''Wheat'']"
    by (simp add: top_indices_def example_sort stable_argsort_def upt_rec)
  show ?thesis
    using h s t recommendations_descending [OF h s, of 0] by auto
qed

text \<open>
  C3, as the specification states it, fails. The order \<open>[0, 1]\<close> is an ascending order
  of the indices of two classes of probability one half, one that \<open>np.argsort\<close> may
  return (a stable sort returns it); the handler reverses it, and the second class is
  recommended before the first.
\<close>

theorem ties_not_in_class_order:
  "np_argsort example_builtins [0.5, 0.5] = [0, 1] \<and>
   is_argsort [0.5, 0.5] [0, 1] \<and>
   top_indices example_builtins [0.5, 0.5] = [1, 0] \<and>
   \<not> ties_keep_class_order [0.5, 0.5] (top_indices example_builtins [0.5, 0.5]) \<and>
   top3_recommendations example_builtins [0.5, 0.5] [''Maize'', ''Rice''] 0 =
     Inr [\<lparr>crop = ''Rice'', confidence = ''50%''\<rparr>, \<lparr>crop = ''Maize'', confidence = ''50%''\<rparr>]"
  by (simp add: ties_keep_class_order_def top3_recommendations_def top_indices_def example_sort
      stable_argsort_def is_argsort_def upt_rec index_py_def confidence_pct_def format_0f_def
      adjust_confidence_def round_half_even_def Let_def digit_char_def)

subsection \<open>Validation and integers beyond the doubles\<close>

text \<open>
  C4 fails on the code at a required field holding an integer of 401 digits: \<open>float\<close>
  raises OverflowError, which the \<open>except (TypeError, ValueError)\<close> of
  \<open>validate_input\<close> does not catch, so no error list is returned and the endpoint
  answers 500 where a validation failure answers 400.
\<close>

theorem validate_input_overflow:
  "validate_input example_builtins (Some (example_reading(''N'' \<mapsto> PInt (10 ^ 400))))
     = Inl OverflowError \<and>
   recommend_crop example_builtins example_env
       (Some (example_reading(''N'' \<mapsto> PInt (10 ^ 400))))
     = (UnexpectedError OverflowError, 500)"
proof -
  have v: "validate_input example_builtins (Some (example_reading(''N'' \<mapsto> PInt (10 ^ 400))))
             = Inl OverflowError"
    by (simp add: validate_input_def REQUIRED_FIELDS_def FLOAT_LIMIT_def)
  then show ?thesis
    by (simp add: recommend_crop_def recommend_try_def example_env_loaded)
qed

subsection \<open>The rainfall source\<close>

text \<open>
  C5, as the code has it. With the artifacts loaded, a classifier that gives one
  probability per label and an \<open>np.argsort\<close> that returns an ascending order, a body
  that passes validation and whose rainfall is absent, null or a value that \<open>float\<close>
  converts gets a success response. Without rainfall, the estimator's number is the seventh feature and
  the rainfall value of the metadata, and the source reads "estimated (fallback)"; with
  rainfall, the supplied number is used in both places and the source reads "sensor".
\<close>

theorem rainfall_source_recorded:
  assumes "crop_model env = Some m" and "feature_scaler env = Some sc"
    and "engine_contract m"
    and "argsort_contract py"
    and "validate_input py (Some data) = Inr []"
    and "dict_get data ''rainfall'' = PNone \<or> converts py (dict_get data ''rainfall'')"
  shows "(dict_get data ''rainfall'' = PNone \<longrightarrow>
            (\<exists>r fv penalty recommendations reported.
               get_default_rainfall (uniform_draw env) = Inr r \<and>
               feature_values py (data(''rainfall'' \<mapsto> PFloat r)) = Inr fv \<and>
               length fv = 7 \<and> fv ! 6 = r \<and>
               top3_recommendations py (predict_proba m (transform sc fv)) (classes m) penalty
                 = Inr recommendations \<and>
               recommend_crop py env (Some data) =
                 (Success recommendations reported
                    \<lparr>rainfall_source = ''estimated (fallback)'', rainfall_value_used = r\<rparr>,
                  200))) \<and>
         (dict_get data ''rainfall'' \<noteq> PNone \<longrightarrow>
            (\<exists>r fv penalty recommendations reported.
               float_py py (dict_get data ''rainfall'') = Inr r \<and>
               feature_values py data = Inr fv \<and>
               length fv = 7 \<and> fv ! 6 = r \<and>
               top3_recommendations py (predict_proba m (transform sc fv)) (classes m) penalty
                 = Inr recommendations \<and>
               recommend_crop py env (Some data) =
                 (Success recommendations reported
                    \<lparr>rainfall_source = ''sensor'', rainfall_value_used = r\<rparr>, 200)))"
proof (intro conjI impI)
  assume absent: "dict_get data ''rainfall'' = PNone"
  from fill_rainfall_absent [OF absent, of env] obtain r
    where r: "get_default_rainfall (uniform_draw env) = Inr r"
      and fill: "fill_rainfall env data =
                   Inr (data(''rainfall'' \<mapsto> PFloat r), ''estimated (fallback)'')"
    by blast
  let ?d = "data(''rainfall'' \<mapsto> PFloat r)"
  have rain: "converts py (dict_get ?d ''rainfall'')"
    by (simp add: dict_get_def converts_def)
  have val: "field_value py ?d ''rainfall'' = r"
    by (simp add: field_value_def dict_get_def)
  note res = recommend_crop_filled [OF assms(1-5) fill rain]
  show "\<exists>r fv penalty recommendations reported.
               get_default_rainfall (uniform_draw env) = Inr r \<and>
               feature_values py (data(''rainfall'' \<mapsto> PFloat r)) = Inr fv \<and>
               length fv = 7 \<and> fv ! 6 = r \<and>
               top3_recommendations py (predict_proba m (transform sc fv)) (classes m) penalty
                 = Inr recommendations \<and>
               recommend_crop py env (Some data) =
                 (Success recommendations reported
                    \<lparr>rainfall_source = ''estimated (fallback)'', rainfall_value_used = r\<rparr>,
                  200)"
    using r res(1) res(3) res(4) feature_order_last [of py ?d] val
    by (intro exI [of _ r] exI [of _ "map (field_value py ?d) FEATURE_ORDER"]
        exI [of _ "min (0.10 * real (violation_count py ?d)) 0.50"]) simp
next
  assume present: "dict_get data ''rainfall'' \<noteq> PNone"
  with assms(6) have rain: "converts py (dict_get data ''rainfall'')" by simp
  have fill: "fill_rainfall env data = Inr (data, ''sensor'')"
    by (rule fill_rainfall_present [OF present])
  have val: "float_py py (dict_get data ''rainfall'') = Inr (field_value py data ''rainfall'')"
    using converts_field_value [OF rain] by (simp add: field_value_def)
  note res = recommend_crop_filled [OF assms(1-5) fill rain]
  show "\<exists>r fv penalty recommendations reported.
               float_py py (dict_get data ''rainfall'') = Inr r \<and>
               feature_values py data = Inr fv \<and>
               length fv = 7 \<and> fv ! 6 = r \<and>
               top3_recommendations py (predict_proba m (transform sc fv)) (classes m) penalty
                 = Inr recommendations \<and>
               recommend_crop py env (Some data) =
                 (Success recommendations reported
                    \<lparr>rainfall_source = ''sensor'', rainfall_value_used = r\<rparr>, 200)"
    using val res(1) res(3) res(4) feature_order_last [of py data]
    by (intro exI [of _ "field_value py data ''rainfall''"]
        exI [of _ "map (field_value py data) FEATURE_ORDER"]
        exI [of _ "min (0.10 * real (violation_count py data)) 0.50"]) simp
qed

theorem rainfall_source_recorded_witness:
  "crop_model example_env = Some example_model \<and>
   feature_scaler example_env = Some example_scaler \<and>
   engine_contract example_model \<and>
   argsort_contract example_builtins \<and>
   validate_input example_builtins (Some example_reading) = Inr [] \<and>
   dict_get example_reading ''rainfall'' = PNone \<and>
   (\<exists>recommendations reported.
      recommend_crop example_builtins example_env (Some example_reading) =
        (Success recommendations reported
           \<lparr>rainfall_source = ''estimated (fallback)'', rainfall_value_used = 100\<rparr>, 200)) \<and>
   validate_input example_builtins (Some (example_reading(''rainfall'' \<mapsto> PInt 150))) = Inr [] \<and>
   converts example_builtins (dict_get (example_reading(''rainfall'' \<mapsto> PInt 150)) ''rainfall'') \<and>
   (\<exists>recommendations reported.
      recommend_crop example_builtins example_env
          (Some (example_reading(''rainfall'' \<mapsto> PInt 150))) =
        (Success recommendations reported
           \<lparr>rainfall_source = ''sensor'', rainfall_value_used = 150\<rparr>, 200))"
proof -
  let ?d = "example_reading(''rainfall'' \<mapsto> PInt 150)"
  have absent: "dict_get example_reading ''rainfall'' = PNone"
    by (simp add: dict_get_def example_reading_lookups)
  have draw: "get_default_rainfall (uniform_draw example_env) = Inr 100"
    by (simp add: example_env_def get_default_rainfall_def fetch_rainfall_from_weather_api_def
        round1_def round_half_even_def)
  have valid: "validate_input example_builtins (Some ?d) = Inr []"
    by (simp add: validate_input_def REQUIRED_FIELDS_def example_reading_lookups FLOAT_LIMIT_def)
  have conv: "converts example_builtins (dict_get ?d ''rainfall'')"
    by (simp add: dict_get_def converts_def FLOAT_LIMIT_def)
  have val: "float_py example_builtins (dict_get ?d ''rainfall'') = Inr 150"
    by (simp add: dict_get_def FLOAT_LIMIT_def)
  have present: "dict_get ?d ''rainfall'' \<noteq> PNone"
    by (simp add: dict_get_def)
  have a: "\<exists>recommendations reported.
      recommend_crop example_builtins example_env (Some example_reading) =
        (Success recommendations reported
           \<lparr>rainfall_source = ''estimated (fallback)'', rainfall_value_used = 100\<rparr>, 200)"
    using rainfall_source_recorded [OF example_env_loaded example_contract example_sorts example_validates
        disjI1 [OF absent]] absent draw
    by auto
  have b: "\<exists>recommendations reported.
      recommend_crop example_builtins example_env (Some ?d) =
        (Success recommendations reported
           \<lparr>rainfall_source = ''sensor'', rainfall_value_used = 150\<rparr>, 200)"
    using rainfall_source_recorded [OF example_env_loaded example_contract example_sorts valid
        disjI2 [OF conv]] present val
    by auto
  show ?thesis
    using a b absent valid conv example_env_loaded example_contract example_sorts
      example_validates
    by simp
qed

text \<open>
  C5, as the specification states it, for every request that passes validation, fails: a
  body with the rainfall "heavy" passes validation, and the response is the 500 of the
  catch-all handler, which carries no metadata and no rainfall source.
\<close>

theorem supplied_rainfall_not_recorded:
  "validate_input example_builtins (Some (example_reading(''rainfall'' \<mapsto> PStr ''heavy'')))
     = Inr [] \<and>
   dict_get (example_reading(''rainfall'' \<mapsto> PStr ''heavy'')) ''rainfall'' = PStr ''heavy'' \<and>
   recommend_crop example_builtins example_env
       (Some (example_reading(''rainfall'' \<mapsto> PStr ''heavy''))) =
     (UnexpectedError ValueError, 500)"
proof -
  let ?d = "example_reading(''rainfall'' \<mapsto> PStr ''heavy'')"
  have v: "validate_input example_builtins (Some ?d) = Inr []"
    by (simp add: validate_input_def REQUIRED_FIELDS_def example_reading_lookups FLOAT_LIMIT_def)
  have g: "dict_get ?d ''rainfall'' = PStr ''heavy''"
    by (simp add: dict_get_def)
  have c: "check_realistic_ranges example_builtins ?d = Inl ValueError"
    by (simp add: check_realistic_ranges_def REALISTIC_RANGES_def dict_get_def
        example_reading_lookups FLOAT_LIMIT_def example_float_str_values)
  have f: "fill_rainfall example_env ?d = Inr (?d, ''sensor'')"
    by (simp add: fill_rainfall_def dict_get_def)
  have "recommend_crop example_builtins example_env (Some ?d) = (UnexpectedError ValueError, 500)"
    by (simp add: recommend_crop_def recommend_try_def recommend_steps_def example_env_loaded
        v f c)
  with v g show ?thesis by simp
qed

subsection \<open>The rainfall estimator\<close>

text \<open>
  C6. \<open>get_default_rainfall\<close> always returns a number: the value of the weather
  lookup when the lookup returns one, and the historical constant 120.0 when the lookup
  returns None, which is what it does whenever its body raises.
\<close>

theorem get_default_rainfall_total:
  "(\<exists>r. get_default_rainfall u = Inr r) \<and>
   (\<forall>v. fetch_rainfall_from_weather_api u = Some v \<longrightarrow> get_default_rainfall u = Inr v) \<and>
   (fetch_rainfall_from_weather_api u = None \<longrightarrow> get_default_rainfall u = Inr 120.0) \<and>
   (\<forall>e. u = Inl e \<longrightarrow> fetch_rainfall_from_weather_api u = None)"
  by (simp add: get_default_rainfall_spec fetch_rainfall_from_weather_api_def)

theorem get_default_rainfall_total_witness:
  "fetch_rainfall_from_weather_api (Inl ValueError) = None \<and>
   get_default_rainfall (Inl ValueError) = Inr 120.0 \<and>
   fetch_rainfall_from_weather_api (Inr 100.04) = Some 100 \<and>
   get_default_rainfall (Inr 100.04) = Inr 100"
proof -
  have a: "fetch_rainfall_from_weather_api (Inl ValueError) = None"
    by (simp add: fetch_rainfall_from_weather_api_def)
  have b: "fetch_rainfall_from_weather_api (Inr 100.04) = Some 100"
    by (simp add: fetch_rainfall_from_weather_api_def round1_def round_half_even_def Let_def)
  show ?thesis
    using a b get_default_rainfall_total [of "Inl ValueError"]
      get_default_rainfall_total [of "Inr 100.04"]
    by simp
qed

subsection \<open>The number of recommendations\<close>

text \<open>
  C7. When the classifier gives one probability per class label and \<open>np.argsort\<close>
  returns an ascending order of the indices, the recommendation loop
  returns without an exception, and the number of recommendations is \<open>min 3 n\<close> for
  \<open>n\<close> classes: three from three classes on, all of them below.
\<close>

theorem recommendation_count:
  assumes "length class_labels = length probabilities"
    and "is_argsort probabilities (np_argsort py probabilities)"
  shows "\<exists>recommendations.
           top3_recommendations py probabilities class_labels penalty = Inr recommendations \<and>
           length recommendations = min 3 (length probabilities) \<and>
           (3 \<le> length probabilities \<longrightarrow> length recommendations = 3) \<and>
           (length probabilities < 3 \<longrightarrow> length recommendations = length probabilities)"
  using top3_recommendations_spec [OF assms, of penalty]
  by (auto simp: length_top_indices [OF assms(2)])

theorem recommendation_count_witness:
  "length [''Maize'', ''Rice''] = length [0.4, 0.6 :: real] \<and>
   is_argsort [0.4, 0.6] (np_argsort example_builtins [0.4, 0.6]) \<and>
   (\<exists>recommendations.
      top3_recommendations example_builtins [0.4, 0.6] [''Maize'', ''Rice''] 0
        = Inr recommendations \<and>
      length recommendations = 2)"
proof -
  have h: "length [''Maize'', ''Rice''] = length [0.4, 0.6 :: real]" by simp
  have s: "is_argsort [0.4, 0.6] (np_argsort example_builtins [0.4, 0.6])"
    by (simp add: example_sort stable_argsort_valid)
  show ?thesis
    using s recommendation_count [OF h s, of 0] by auto
qed

subsection \<open>The feature vector\<close>

text \<open>
  C8. For a body that passed validation, after the rainfall step and with a rainfall that
  converts, the feature vector is the list of the seven numbers of N, P, K, temperature,
  humidity, ph and rainfall, in this order, which is \<open>FEATURE_ORDER\<close>. Moisture was
  validated but is no part of it: the vector is the same whatever the moisture field
  holds. With the artifacts loaded, this vector is the argument of the scaler, whose result
  is the argument of the classifier (the response exists when the classifier gives one
  probability per label and \<open>np.argsort\<close> returns an ascending order).
\<close>

theorem feature_vector_order:
  assumes "validate_input py (Some data0) = Inr []"
    and "fill_rainfall env data0 = Inr (data, source)"
    and "converts py (dict_get data ''rainfall'')"
  shows "\<exists>n p k t h ph r.
           float_py py (dict_get data ''N'') = Inr n \<and>
           float_py py (dict_get data ''P'') = Inr p \<and>
           float_py py (dict_get data ''K'') = Inr k \<and>
           float_py py (dict_get data ''temperature'') = Inr t \<and>
           float_py py (dict_get data ''humidity'') = Inr h \<and>
           float_py py (dict_get data ''ph'') = Inr ph \<and>
           float_py py (dict_get data ''rainfall'') = Inr r \<and>
           feature_values py data = Inr [n, p, k, t, h, ph, r] \<and>
           [n, p, k, t, h, ph, r] = map (field_value py data) FEATURE_ORDER \<and>
           valid_field py data ''moisture'' \<and>
           ''moisture'' \<notin> set FEATURE_ORDER \<and>
           (\<forall>v. feature_values py (data(''moisture'' \<mapsto> v)) = Inr [n, p, k, t, h, ph, r]) \<and>
           (\<forall>m sc. crop_model env = Some m \<and> feature_scaler env = Some sc \<and>
                   engine_contract m \<and> argsort_contract py \<longrightarrow>
              (\<exists>penalty recommendations reported meta.
                 top3_recommendations py (predict_proba m (transform sc [n, p, k, t, h, ph, r]))
                   (classes m) penalty = Inr recommendations \<and>
                 recommend_crop py env (Some data0) =
                   (Success recommendations reported meta, 200)))"
proof -
  have req: "\<forall>f \<in> set REQUIRED_FIELDS. valid_field py data f"
    using fill_rainfall_keeps_required [OF assms(2) validate_input_passes [OF assms(1)]] .
  have rainv: "valid_field py data ''rainfall''"
    using assms(3) by (rule converts_valid)
  have conv: "float_py py (dict_get data f) = Inr (field_value py data f)"
    if "valid_field py data f" for f
    using converts_field_value [OF valid_field_numeric [OF that]] by (simp add: field_value_def)
  have fv: "feature_values py data = Inr (map (field_value py data) FEATURE_ORDER)"
    by (rule valid_reading_features [OF req rainv])
  have moist: "feature_values py (data(''moisture'' \<mapsto> v)) = feature_values py data" for v
    unfolding feature_values_def by (rule float_items_update_other) simp
  have handler: "\<exists>penalty recommendations reported meta.
           top3_recommendations py
             (predict_proba m (transform sc (map (field_value py data) FEATURE_ORDER)))
             (classes m) penalty = Inr recommendations \<and>
           recommend_crop py env (Some data0) = (Success recommendations reported meta, 200)"
    if "crop_model env = Some m \<and> feature_scaler env = Some sc \<and>
        engine_contract m \<and> argsort_contract py" for m sc
  proof -
    from that have l: "crop_model env = Some m" "feature_scaler env = Some sc"
      and c: "engine_contract m" and s: "argsort_contract py" by simp_all
    note res = recommend_crop_filled [OF l c s assms(1) assms(2) assms(3)]
    from res(3) res(4) show ?thesis by blast
  qed
  have v: "valid_field py data ''N''" "valid_field py data ''P''" "valid_field py data ''K''"
    "valid_field py data ''temperature''" "valid_field py data ''humidity''"
    "valid_field py data ''ph''" "valid_field py data ''moisture''"
    using req by (simp_all add: REQUIRED_FIELDS_def)
  have list: "map (field_value py data) FEATURE_ORDER =
      [field_value py data ''N'', field_value py data ''P'', field_value py data ''K'',
       field_value py data ''temperature'', field_value py data ''humidity'',
       field_value py data ''ph'', field_value py data ''rainfall'']"
    by (simp add: FEATURE_ORDER_def)
  have notin: "''moisture'' \<notin> set FEATURE_ORDER"
    by (simp add: FEATURE_ORDER_def)
  show ?thesis
    apply (rule exI [of _ "field_value py data ''N''"])
    apply (rule exI [of _ "field_value py data ''P''"])
    apply (rule exI [of _ "field_value py data ''K''"])
    apply (rule exI [of _ "field_value py data ''temperature''"])
    apply (rule exI [of _ "field_value py data ''humidity''"])
    apply (rule exI [of _ "field_value py data ''ph''"])
    apply (rule exI [of _ "field_value py data ''rainfall''"])
    using conv [OF v(1)] conv [OF v(2)] conv [OF v(3)] conv [OF v(4)] conv [OF v(5)]
      conv [OF v(6)] conv [OF rainv] v(7) notin handler
    by (simp add: moist fv list [symmetric])
qed

theorem feature_vector_order_witness:
  "validate_input example_builtins (Some example_reading) = Inr [] \<and>
   fill_rainfall example_env example_reading =
     Inr (example_reading(''rainfall'' \<mapsto> PFloat 100), ''estimated (fallback)'') \<and>
   converts example_builtins
     (dict_get (example_reading(''rainfall'' \<mapsto> PFloat 100)) ''rainfall'') \<and>
   feature_values example_builtins (example_reading(''rainfall'' \<mapsto> PFloat 100)) =
     Inr [90, 42, 43, 25, 80, 6.5, 100]"
proof -
  let ?d = "example_reading(''rainfall'' \<mapsto> PFloat 100)"
  have conv: "converts example_builtins (dict_get ?d ''rainfall'')"
    by (simp add: dict_get_def converts_def)
  have vals:
    "float_py example_builtins (dict_get ?d ''N'') = Inr 90"
    "float_py example_builtins (dict_get ?d ''P'') = Inr 42"
    "float_py example_builtins (dict_get ?d ''K'') = Inr 43"
    "float_py example_builtins (dict_get ?d ''temperature'') = Inr 25"
    "float_py example_builtins (dict_get ?d ''humidity'') = Inr 80"
    "float_py example_builtins (dict_get ?d ''ph'') = Inr 6.5"
    "float_py example_builtins (dict_get ?d ''rainfall'') = Inr 100"
    by (simp_all add: dict_get_def example_reading_lookups FLOAT_LIMIT_def)
  have "feature_values example_builtins ?d = Inr [90, 42, 43, 25, 80, 6.5, 100]"
    using feature_vector_order [OF example_validates example_filled conv] vals
    by auto
  then show ?thesis
    using example_validates example_filled conv by simp
qed

subsection \<open>The warnings\<close>

text \<open>
  C9, as the code has it. On a reading whose present ranged fields all convert to numbers,
  the range check returns, and its warnings are, field by field in the order of the table:
  nothing for a field that is absent or null; for a value strictly below the minimum the
  text "Input LABEL (VALUE) is below the expected minimum (MIN)."; for a value strictly
  above the maximum the text "Input LABEL (VALUE) is above the expected maximum (MAX).";
  nothing for a value in the range, its two bounds included. A success response reports
  the warnings of the range check, as None when there are none and never as an empty list.
\<close>

theorem warnings_iff_out_of_range:
  "(numeric_reading py data \<longrightarrow>
      (\<exists>penalty.
         check_realistic_ranges py data =
           Inr (concat (map
                  (\<lambda>(field, label, low, low_text, high, high_text).
                     if dict_get data field = PNone then []
                     else (case float_py py (dict_get data field) of
                             Inl e \<Rightarrow> []
                           | Inr v \<Rightarrow>
                               if v < low
                               then [''Input '' @ label @ '' ('' @ str_float py v @
                                     '') is below the expected minimum ('' @ low_text @ '').'']
                               else if high < v
                               then [''Input '' @ label @ '' ('' @ str_float py v @
                                     '') is above the expected maximum ('' @ high_text @ '').'']
                               else []))
                  [(''N'', ''Nitrogen (N)'', 0, ''0'', 200, ''200''),
                   (''P'', ''Phosphorus (P)'', 0, ''0'', 200, ''200''),
                   (''K'', ''Potassium (K)'', 0, ''0'', 300, ''300''),
                   (''temperature'', ''Temperature'', - 10, ''-10'', 60, ''60''),
                   (''humidity'', ''Humidity'', 0, ''0'', 100, ''100''),
                   (''ph'', ''pH'', 0, ''0'', 14, ''14''),
                   (''rainfall'', ''Rainfall'', 0, ''0'', 500, ''500''),
                   (''moisture'', ''Soil Moisture'', 0, ''0'', 100, ''100'')]),
                penalty))) \<and>
   (\<forall>recommendations reported meta code.
      recommend_crop py env (Some data) = (Success recommendations reported meta, code) \<longrightarrow>
      (\<exists>filled source warnings penalty.
         fill_rainfall env data = Inr (filled, source) \<and>
         check_realistic_ranges py filled = Inr (warnings, penalty) \<and>
         reported = (if warnings = [] then None else Some warnings)))"
proof (intro conjI impI allI)
  assume num: "numeric_reading py data"
  have texts: "str_int 0 = ''0''" "str_int 200 = ''200''" "str_int 300 = ''300''"
    "str_int (- 10) = ''-10''" "str_int 60 = ''60''" "str_int 100 = ''100''"
    "str_int 14 = ''14''" "str_int 500 = ''500''"
    by (simp_all add: str_int_def digit_char_def)
  have "map (warning_text py data) (filter (out_of_range py data) REALISTIC_RANGES) =
        concat (map (\<lambda>entry. if out_of_range py data entry
                               then [warning_text py data entry] else []) REALISTIC_RANGES)"
    by (rule map_filter_concat)
  also have "\<dots> = concat (map
                  (\<lambda>(field, label, low, low_text, high, high_text).
                     if dict_get data field = PNone then []
                     else (case float_py py (dict_get data field) of
                             Inl e \<Rightarrow> []
                           | Inr v \<Rightarrow>
                               if v < low
                               then [''Input '' @ label @ '' ('' @ str_float py v @
                                     '') is below the expected minimum ('' @ low_text @ '').'']
                               else if high < v
                               then [''Input '' @ label @ '' ('' @ str_float py v @
                                     '') is above the expected maximum ('' @ high_text @ '').'']
                               else []))
                  [(''N'', ''Nitrogen (N)'', 0, ''0'', 200, ''200''),
                   (''P'', ''Phosphorus (P)'', 0, ''0'', 200, ''200''),
                   (''K'', ''Potassium (K)'', 0, ''0'', 300, ''300''),
                   (''temperature'', ''Temperature'', - 10, ''-10'', 60, ''60''),
                   (''humidity'', ''Humidity'', 0, ''0'', 100, ''100''),
                   (''ph'', ''pH'', 0, ''0'', 14, ''14''),
                   (''rainfall'', ''Rainfall'', 0, ''0'', 500, ''500''),
                   (''moisture'', ''Soil Moisture'', 0, ''0'', 100, ''100'')])"
    unfolding REALISTIC_RANGES_def
    by (simp add: violated_entry_words texts del: append_assoc cong: sum.case_cong if_cong)
  finally show "\<exists>penalty.
         check_realistic_ranges py data =
           Inr (concat (map
                  (\<lambda>(field, label, low, low_text, high, high_text).
                     if dict_get data field = PNone then []
                     else (case float_py py (dict_get data field) of
                             Inl e \<Rightarrow> []
                           | Inr v \<Rightarrow>
                               if v < low
                               then [''Input '' @ label @ '' ('' @ str_float py v @
                                     '') is below the expected minimum ('' @ low_text @ '').'']
                               else if high < v
                               then [''Input '' @ label @ '' ('' @ str_float py v @
                                     '') is above the expected maximum ('' @ high_text @ '').'']
                               else []))
                  [(''N'', ''Nitrogen (N)'', 0, ''0'', 200, ''200''),
                   (''P'', ''Phosphorus (P)'', 0, ''0'', 200, ''200''),
                   (''K'', ''Potassium (K)'', 0, ''0'', 300, ''300''),
                   (''temperature'', ''Temperature'', - 10, ''-10'', 60, ''60''),
                   (''humidity'', ''Humidity'', 0, ''0'', 100, ''100''),
                   (''ph'', ''pH'', 0, ''0'', 14, ''14''),
                   (''rainfall'', ''Rainfall'', 0, ''0'', 500, ''500''),
                   (''moisture'', ''Soil Moisture'', 0, ''0'', 100, ''100'')]),
                penalty)"
    using check_realistic_ranges_spec [OF num] by simp
next
  fix recommendations reported meta code
  assume "recommend_crop py env (Some data) = (Success recommendations reported meta, code)"
  then show "\<exists>filled source warnings penalty.
         fill_rainfall env data = Inr (filled, source) \<and>
         check_realistic_ranges py filled = Inr (warnings, penalty) \<and>
         reported = (if warnings = [] then None else Some warnings)"
    by (auto simp: recommend_crop_def recommend_try_def recommend_steps_def response_warnings_def
        split: sum.splits option.splits prod.splits if_splits)
qed

theorem warnings_iff_out_of_range_witness:
  "numeric_reading example_builtins
     (example_reading(''N'' \<mapsto> PInt (- 5), ''temperature'' \<mapsto> PInt 120,
        ''humidity'' \<mapsto> PInt 100)) \<and>
   (\<exists>penalty.
      check_realistic_ranges example_builtins
        (example_reading(''N'' \<mapsto> PInt (- 5), ''temperature'' \<mapsto> PInt 120,
           ''humidity'' \<mapsto> PInt 100)) =
        Inr ([''Input Nitrogen (N) (-5.0) is below the expected minimum (0).'',
              ''Input Temperature (120.0) is above the expected maximum (60).''], penalty)) \<and>
   (\<exists>recommendations meta.
      recommend_crop example_builtins example_env (Some example_reading) =
        (Success recommendations None meta, 200)) \<and>
   (\<exists>filled source penalty.
      fill_rainfall example_env example_reading = Inr (filled, source) \<and>
      check_realistic_ranges example_builtins filled = Inr ([], penalty))"
proof -
  let ?d = "example_reading(''N'' \<mapsto> PInt (- 5), ''temperature'' \<mapsto> PInt 120,
              ''humidity'' \<mapsto> PInt 100)"
  have h: "numeric_reading example_builtins ?d"
    by (simp add: numeric_reading_def numeric_entry_def REALISTIC_RANGES_def dict_get_def
        example_reading_lookups converts_def FLOAT_LIMIT_def)
  note hot = warnings_iff_out_of_range [of example_builtins ?d example_env]
  note plain = warnings_iff_out_of_range [of example_builtins example_reading example_env]
  from hot [THEN conjunct1, rule_format, OF h] have a: "\<exists>penalty.
      check_realistic_ranges example_builtins ?d =
        Inr ([''Input Nitrogen (N) (-5.0) is below the expected minimum (0).'',
              ''Input Temperature (120.0) is above the expected maximum (60).''], penalty)"
    by (simp add: dict_get_def example_reading_lookups FLOAT_LIMIT_def example_str_float_values)
  from plain [THEN conjunct2, rule_format, OF example_response] have b: "\<exists>filled source penalty.
      fill_rainfall example_env example_reading = Inr (filled, source) \<and>
      check_realistic_ranges example_builtins filled = Inr ([], penalty)"
    by (auto split: if_splits)
  show ?thesis
    using h a b example_response by simp
qed

text \<open>
  C9, as the specification states it, for every input mapping, fails: with N at -5, below
  its minimum, and a list as rainfall, validation passes and the range check raises on
  the rainfall, so no warning is emitted for N and the response is the 500 of the
  catch-all handler.
\<close>

theorem violation_without_warning:
  "validate_input example_builtins
     (Some (example_reading(''N'' \<mapsto> PInt (- 5), ''rainfall'' \<mapsto> PList []))) = Inr [] \<and>
   out_of_range example_builtins
     (example_reading(''N'' \<mapsto> PInt (- 5), ''rainfall'' \<mapsto> PList []))
     (''N'', 0, 200, ''Nitrogen (N)'') \<and>
   check_realistic_ranges example_builtins
     (example_reading(''N'' \<mapsto> PInt (- 5), ''rainfall'' \<mapsto> PList [])) = Inl TypeError \<and>
   recommend_crop example_builtins example_env
     (Some (example_reading(''N'' \<mapsto> PInt (- 5), ''rainfall'' \<mapsto> PList []))) =
     (UnexpectedError TypeError, 500)"
proof -
  let ?d = "example_reading(''N'' \<mapsto> PInt (- 5), ''rainfall'' \<mapsto> PList [])"
  have v: "validate_input example_builtins (Some ?d) = Inr []"
    by (simp add: validate_input_def REQUIRED_FIELDS_def example_reading_lookups FLOAT_LIMIT_def)
  have o: "out_of_range example_builtins ?d (''N'', 0, 200, ''Nitrogen (N)'')"
    by (simp add: out_of_range_def dict_get_def FLOAT_LIMIT_def)
  have c: "check_realistic_ranges example_builtins ?d = Inl TypeError"
    by (simp add: check_realistic_ranges_def REALISTIC_RANGES_def dict_get_def
        example_reading_lookups FLOAT_LIMIT_def CONFIDENCE_PENALTY_PER_WARNING_def)
  have f: "fill_rainfall example_env ?d = Inr (?d, ''sensor'')"
    by (simp add: fill_rainfall_def dict_get_def)
  have "recommend_crop example_builtins example_env (Some ?d) = (UnexpectedError TypeError, 500)"
    by (simp add: recommend_crop_def recommend_try_def recommend_steps_def example_env_loaded
        v f c)
  with v o c show ?thesis by simp
qed

subsection \<open>A rainfall that does not convert\<close>

text \<open>
  C10. With the artifacts loaded, a body whose seven required fields are valid and whose
  rainfall is present, not null and not convertible passes validation, the conversion in
  \<open>check_realistic_ranges\<close> raises, and the response is the 500 of the catch-all
  handler, with that exception, not the 400 of a validation failure.
\<close>

theorem unconvertible_rainfall_gives_500:
  assumes "crop_model env = Some m" and "feature_scaler env = Some sc"
    and "\<forall>f \<in> set REQUIRED_FIELDS. valid_field py data f"
    and "dict_get data ''rainfall'' \<noteq> PNone"
    and "float_py py (dict_get data ''rainfall'') = Inl e"
  shows "validate_input py (Some data) = Inr [] \<and>
         check_realistic_ranges py data = Inl e \<and>
         recommend_crop py env (Some data) = (UnexpectedError e, 500) \<and>
         snd (recommend_crop py env (Some data)) \<noteq> 400"
proof -
  have valid: "validate_input py (Some data) = Inr []"
    using valid_fields_pass [OF assms(3), of "[]"] by (simp add: validate_input_def)
  let ?pre = "[(''N'', 0, 200, ''Nitrogen (N)''),
               (''P'', 0, 200, ''Phosphorus (P)''),
               (''K'', 0, 300, ''Potassium (K)''),
               (''temperature'', -10, 60, ''Temperature''),
               (''humidity'', 0, 100, ''Humidity''),
               (''ph'', 0, 14, ''pH'')] :: (string \<times> int \<times> int \<times> string) list"
  have table: "REALISTIC_RANGES =
      ?pre @ (''rainfall'', 0, 500, ''Rainfall'') # [(''moisture'', 0, 100, ''Soil Moisture'')]"
    by (simp add: REALISTIC_RANGES_def)
  have pre: "list_all (numeric_entry py data) ?pre"
    using assms(3) by (simp add: numeric_entry_def REQUIRED_FIELDS_def valid_field_numeric)
  have ranges: "check_realistic_ranges py data = Inl e"
    unfolding check_realistic_ranges_def table
    using check_fields_raises [OF pre assms(4) assms(5)] by simp
  have fill: "fill_rainfall env data = Inr (data, ''sensor'')"
    by (rule fill_rainfall_present [OF assms(4)])
  have "recommend_crop py env (Some data) = (UnexpectedError e, 500)"
    by (simp add: recommend_crop_def recommend_try_def recommend_steps_def assms(1,2)
        valid fill ranges)
  with valid ranges show ?thesis by simp
qed

theorem unconvertible_rainfall_gives_500_witness:
  "crop_model example_env = Some example_model \<and>
   feature_scaler example_env = Some example_scaler \<and>
   list_all (valid_field example_builtins (example_reading(''rainfall'' \<mapsto> PStr ''heavy'')))
     REQUIRED_FIELDS \<and>
   dict_get (example_reading(''rainfall'' \<mapsto> PStr ''heavy'')) ''rainfall'' \<noteq> PNone \<and>
   float_py example_builtins (dict_get (example_reading(''rainfall'' \<mapsto> PStr ''heavy'')) ''rainfall'')
     = Inl ValueError \<and>
   validate_input example_builtins (Some (example_reading(''rainfall'' \<mapsto> PStr ''heavy''))) = Inr [] \<and>
   recommend_crop example_builtins example_env
       (Some (example_reading(''rainfall'' \<mapsto> PStr ''heavy''))) =
     (UnexpectedError ValueError, 500)"
proof -
  let ?d = "example_reading(''rainfall'' \<mapsto> PStr ''heavy'')"
  have req: "\<forall>f \<in> set REQUIRED_FIELDS. valid_field example_builtins ?d f"
    by (simp add: REQUIRED_FIELDS_def valid_field_def example_reading_lookups converts_def
        FLOAT_LIMIT_def)
  have present: "dict_get ?d ''rainfall'' \<noteq> PNone"
    by (simp add: dict_get_def)
  have bad: "float_py example_builtins (dict_get ?d ''rainfall'') = Inl ValueError"
    by (simp add: dict_get_def example_float_str_values)
  show ?thesis
    using unconvertible_rainfall_gives_500 [OF example_env_loaded req present bad]
      req present bad example_env_loaded
    by (simp add: list_all_iff)
qed

end
